theory Spec2Isabelle
  imports Main "HOL-Library.Word"
begin

section \<open>The data model of caicr.h\<close>

text \<open>
  The coordination runtime (caicr.c) sits between two external collaborators: the
  persistence layer (caicr_lldb.h) and the network layer (caicr_network.h). This theory
  embeds the runtime's entry points as functions over an explicit world (a store of
  instances and the sequence of external calls made so far), with the two layers taken as
  parameters.

  A \<open>char*\<close> is a \<open>string option\<close>: \<open>None\<close> is the NULL pointer, otherwise the bytes
  it points to (read as a C string they end at the first NUL). \<open>uint16_t\<close>,
  \<open>uint32_t\<close>, \<open>uint64_t\<close> and \<open>size_t\<close> are words, and the \<open>next\<close> pointer of an
  operation is the tail of a HOL list: a batch of operations is a
  \<open>CAICROperation list\<close> and the NULL batch is \<open>[]\<close>.
\<close>

type_synonym cstring = "string option"

record CAICRConfig =
  instance_id :: cstring
  project_root :: cstring
  lldb_database_path :: cstring
  coordination_port :: "16 word"
  sync_interval_ms :: "32 word"
  max_history_entries :: "64 word"
  encryption_enabled :: bool

datatype CAICROperationType =
    CAICR_OP_INSERT
  | CAICR_OP_DELETE
  | CAICR_OP_REPLACE
  | CAICR_OP_META_CHANGE
  | CAICR_OP_RESOURCE

record CAICROperation =
  type :: CAICROperationType
  file_path :: cstring
  line_number :: "32 word"
  column_number :: "32 word"
  content :: cstring
  content_length :: "64 word"
  timestamp_ns :: "64 word"
  instance_id :: cstring
  operation_id :: "64 word"

datatype CAICRStatus =
    CAICR_SUCCESS
  | CAICR_ERROR_INVALID_PARAMETER
  | CAICR_ERROR_OUT_OF_MEMORY
  | CAICR_ERROR_LLDB_INITIALIZATION
  | CAICR_ERROR_LLDB_QUERY
  | CAICR_ERROR_NETWORK_INITIALIZATION
  | CAICR_ERROR_INSTANCE_DISCOVERY
  | CAICR_ERROR_OPERATION_EXECUTION
  | CAICR_ERROR_PERSISTENCE
  | CAICR_ERROR_UNKNOWN

text \<open>
  The instance structure of caicr.c. The mutex and the thread handle carry no data of
  their own here: locking, unlocking, creating and joining appear as events. A callback
  is the address of the registered function (\<open>None\<close> is NULL), \<open>void*\<close> likewise.
\<close>

record ('db, 'net) CAICRInstance_t =
  config :: CAICRConfig
  lldb_context :: 'db
  network_context :: 'net
  is_running :: bool
  callback :: "nat option"
  callback_user_data :: "nat option"

section \<open>The external layers\<close>

text \<open>
  The functions of caicr_lldb.h and caicr_network.h that the runtime calls, as state
  transformers on the layer's context. The runtime is verified against every behaviour
  of these functions; the placeholder bodies of caicr_lldb.c and caicr_network.c are one
  instance (\<open>placeholder_ports\<close> below). The two shutdown functions are called only
  when the instance is being released and their status is dropped: they appear as events
  only. \<open>caicr_lldb_get_operation_history\<close> and \<open>caicr_lldb_mark_operation_redone\<close>
  are never called by caicr.c.
\<close>

record ('db, 'net) ports =
  lldb_initialize :: "cstring \<Rightarrow> 64 word \<Rightarrow> CAICRStatus \<times> 'db"
  lldb_begin_transaction :: "'db \<Rightarrow> CAICRStatus \<times> 'db"
  lldb_commit_transaction :: "'db \<Rightarrow> CAICRStatus \<times> 'db"
  lldb_rollback_transaction :: "'db \<Rightarrow> CAICRStatus \<times> 'db"
  lldb_store_operation :: "CAICROperation \<Rightarrow> 'db \<Rightarrow> CAICRStatus \<times> 'db"
  lldb_get_last_operation :: "'db \<Rightarrow> (CAICRStatus \<times> CAICROperation option) \<times> 'db"
  lldb_mark_operation_undone :: "64 word \<Rightarrow> 'db \<Rightarrow> CAICRStatus \<times> 'db"
  network_initialize :: "cstring \<Rightarrow> 16 word \<Rightarrow> bool \<Rightarrow> CAICRStatus \<times> 'net"
  network_distribute_operation :: "CAICROperation \<Rightarrow> 'net \<Rightarrow> CAICRStatus \<times> 'net"
  network_sync_state :: "'net \<Rightarrow> CAICRStatus \<times> 'net"
  network_get_pending_operations :: "'net \<Rightarrow> (CAICRStatus \<times> CAICROperation list) \<times> 'net"
  network_free_operations :: "CAICROperation list \<Rightarrow> 'net \<Rightarrow> CAICRStatus \<times> 'net"

text \<open>
  Every call that leaves caicr.c, in the order the runtime makes it, and every
  \<open>atomic_store\<close> to the running flag, with the value stored.
\<close>

datatype event =
    Mtx_init
  | Mtx_lock
  | Mtx_unlock
  | Mtx_destroy
  | Thrd_create
  | Thrd_join
  | Thrd_sleep
  | Atomic_store_is_running bool
  | Lldb_initialize
  | Lldb_begin_transaction
  | Lldb_commit_transaction
  | Lldb_rollback_transaction
  | Lldb_store_operation CAICROperation
  | Lldb_get_last_operation
  | Lldb_mark_operation_undone "64 word"
  | Lldb_shutdown
  | Network_initialize
  | Network_distribute_operation CAICROperation
  | Network_sync_state
  | Network_get_pending_operations
  | Network_free_operations "CAICROperation list"
  | Network_shutdown
  | Callback nat "CAICROperation list" "nat option"
  | Free_operation CAICROperation
  | Free_instance nat

text \<open>
  What a call of an entry point yields: a status, or \<open>Fault\<close> where the C code reads
  through a pointer that is NULL or already freed. That is undefined behaviour in C:
  the world that stands beside \<open>Fault\<close> in a result says nothing about what such a call
  does, and no statement below draws on it.
\<close>

datatype outcome = Returned CAICRStatus | Fault

text \<open>
  The world: the store of live instances by address (\<open>calloc\<close> hands out \<open>brk\<close> and
  \<open>free\<close> removes the address), and the calls made so far. A handle
  \<open>CAICRInstance\<close> is a \<open>nat option\<close>, \<open>None\<close> for NULL.
\<close>

record ('db, 'net) world =
  heap :: "nat \<Rightarrow> ('db, 'net) CAICRInstance_t option"
  brk :: nat
  trace :: "event list"

text \<open>
  A running call works on the instance it was given and on the events it emits;
  \<open>lldb_call\<close> and \<open>network_call\<close> apply a layer function to the instance's context.
\<close>

type_synonym ('db, 'net) frame = "('db, 'net) CAICRInstance_t \<times> event list"

definition emit :: "event \<Rightarrow> ('db, 'net) frame \<Rightarrow> ('db, 'net) frame" where
  "emit e fr = (fst fr, snd fr @ [e])"

definition lldb_call ::
  "('db \<Rightarrow> 'r \<times> 'db) \<Rightarrow> event \<Rightarrow> ('db, 'net) frame \<Rightarrow> 'r \<times> ('db, 'net) frame" where
  "lldb_call f e fr =
     (let (r, db) = f (lldb_context (fst fr))
      in (r, ((fst fr)\<lparr>lldb_context := db\<rparr>, snd fr @ [e])))"

definition network_call ::
  "('net \<Rightarrow> 'r \<times> 'net) \<Rightarrow> event \<Rightarrow> ('db, 'net) frame \<Rightarrow> 'r \<times> ('db, 'net) frame" where
  "network_call f e fr =
     (let (r, net) = f (network_context (fst fr))
      in (r, ((fst fr)\<lparr>network_context := net\<rparr>, snd fr @ [e])))"

text \<open>Writing a finished frame back: the instance at its address, the events appended.\<close>

definition commit_frame ::
  "nat \<Rightarrow> ('db, 'net) frame \<Rightarrow> ('db, 'net) world \<Rightarrow> ('db, 'net) world" where
  "commit_frame a fr w = w\<lparr>heap := (heap w)(a := Some (fst fr)), trace := trace w @ snd fr\<rparr>"

text \<open>
  Observations on a world: the persistence and network contexts of the instance at an
  address, and the operations that a sequence of calls handed to
  \<open>caicr_lldb_store_operation\<close>, in order.
\<close>

definition lldb_context_of :: "('db, 'net) world \<Rightarrow> nat \<Rightarrow> 'db option" where
  "lldb_context_of w a = map_option lldb_context (heap w a)"

definition network_context_of :: "('db, 'net) world \<Rightarrow> nat \<Rightarrow> 'net option" where
  "network_context_of w a = map_option network_context (heap w a)"

primrec stored :: "event list \<Rightarrow> CAICROperation list" where
  "stored [] = []"
| "stored (e # es) =
     (case e of Lldb_store_operation operation \<Rightarrow> operation # stored es | _ \<Rightarrow> stored es)"

section \<open>caicr_submit_operation\<close>

definition submit_frame ::
  "('db, 'net) ports \<Rightarrow> CAICROperation \<Rightarrow> ('db, 'net) frame \<Rightarrow> CAICRStatus \<times> ('db, 'net) frame" where
  "submit_frame P operation fr0 =
     (let fr1 = emit Mtx_lock fr0;
          (status, fr2) = lldb_call (lldb_begin_transaction P) Lldb_begin_transaction fr1
      in if status \<noteq> CAICR_SUCCESS then (status, emit Mtx_unlock fr2)
         else
           let (status, fr3) =
                 lldb_call (lldb_store_operation P operation) (Lldb_store_operation operation) fr2
           in if status \<noteq> CAICR_SUCCESS then
                let (_, fr4) =
                      lldb_call (lldb_rollback_transaction P) Lldb_rollback_transaction fr3
                in (status, emit Mtx_unlock fr4)
              else
                let (status, fr4) =
                      lldb_call (lldb_commit_transaction P) Lldb_commit_transaction fr3;
                    fr5 = emit Mtx_unlock fr4
                in if status \<noteq> CAICR_SUCCESS then (status, fr5)
                   else network_call (network_distribute_operation P operation)
                          (Network_distribute_operation operation) fr5)"

definition caicr_submit_operation ::
  "('db, 'net) ports \<Rightarrow> ('db, 'net) world \<Rightarrow> nat option \<Rightarrow> CAICROperation option
     \<Rightarrow> outcome \<times> ('db, 'net) world" where
  "caicr_submit_operation P w instance operation =
     (case (instance, operation) of
        (None, _) \<Rightarrow> (Returned CAICR_ERROR_INVALID_PARAMETER, w)
      | (Some a, None) \<Rightarrow> (Returned CAICR_ERROR_INVALID_PARAMETER, w)
      | (Some a, Some op) \<Rightarrow>
          (case heap w a of
             None \<Rightarrow> (Fault, w)
           | Some inst \<Rightarrow>
               let (status, fr) = submit_frame P op (inst, [])
               in (Returned status, commit_frame a fr w)))"

section \<open>The C library\<close>

text \<open>
  What the C library answers in this run: whether \<open>calloc\<close>, \<open>strdup\<close> of a given
  string, \<open>mtx_init\<close> and \<open>thrd_create\<close> succeed.
\<close>

record libc =
  calloc_ok :: bool
  strdup_ok :: "string \<Rightarrow> bool"
  mtx_init_ok :: bool
  thrd_create_ok :: bool

text \<open>
  The bytes behind a \<open>char*\<close> read as a C string: everything before the first NUL.
\<close>

definition c_str :: "string \<Rightarrow> string" where
  "c_str cs = takeWhile (\<lambda>c. c \<noteq> CHR 0x00) cs"

text \<open>
  \<open>strdup\<close> reads its argument, so \<open>strdup(NULL)\<close> is a fault (the outer \<open>None\<close>).
  Otherwise it returns a copy of the C string, or NULL when the allocation fails.
\<close>

definition strdup :: "libc \<Rightarrow> cstring \<Rightarrow> cstring option" where
  "strdup L s =
     (case s of
        None \<Rightarrow> None
      | Some cs \<Rightarrow> Some (if strdup_ok L (c_str cs) then Some (c_str cs) else None))"

section \<open>caicr_undo\<close>

text \<open>
  The source does not test what its three \<open>strdup\<close> calls return: a copy that failed
  leaves NULL in the field of the reversal, which is committed and distributed like any
  other.
\<close>

text \<open>The initialiser of \<open>reverse_operation\<close> (the \<open>next\<close> field is NULL: a single operation).\<close>

definition reverse_operation ::
  "libc \<Rightarrow> ('db, 'net) CAICRInstance_t \<Rightarrow> CAICROperation \<Rightarrow> CAICROperation option" where
  "reverse_operation L inst last_operation =
     (case (strdup L (file_path last_operation),
            if type last_operation = CAICR_OP_DELETE then strdup L (content last_operation)
            else Some None,
            strdup L (CAICRConfig.instance_id (config inst))) of
        (Some fp, Some ct, Some iid) \<Rightarrow>
          Some \<lparr>type = (if type last_operation = CAICR_OP_INSERT then CAICR_OP_DELETE
                        else if type last_operation = CAICR_OP_DELETE then CAICR_OP_INSERT
                        else CAICR_OP_REPLACE),
                file_path = fp,
                line_number = line_number last_operation,
                column_number = column_number last_operation,
                content = ct,
                content_length = (if type last_operation = CAICR_OP_DELETE
                                  then content_length last_operation else 0),
                timestamp_ns = 0,
                instance_id = iid,
                operation_id = 0\<rparr>
      | _ \<Rightarrow> None)"

definition undo_frame ::
  "libc \<Rightarrow> ('db, 'net) ports \<Rightarrow> ('db, 'net) frame \<Rightarrow> outcome \<times> ('db, 'net) frame" where
  "undo_frame L P fr0 =
     (let fr1 = emit Mtx_lock fr0;
          ((status, last_operation), fr2) =
             lldb_call (lldb_get_last_operation P) Lldb_get_last_operation fr1
      in case last_operation of
           None \<Rightarrow>
             (Returned (if status \<noteq> CAICR_SUCCESS then status
                        else CAICR_ERROR_OPERATION_EXECUTION), emit Mtx_unlock fr2)
         | Some last_op \<Rightarrow>
             if status \<noteq> CAICR_SUCCESS then (Returned status, emit Mtx_unlock fr2)
             else
               let (status, fr3) =
                     lldb_call (lldb_begin_transaction P) Lldb_begin_transaction fr2
               in if status \<noteq> CAICR_SUCCESS then
                    (Returned status, emit Mtx_unlock (emit (Free_operation last_op) fr3))
                  else
                    let (status, fr4) =
                          lldb_call (lldb_mark_operation_undone P (operation_id last_op))
                            (Lldb_mark_operation_undone (operation_id last_op)) fr3
                    in if status \<noteq> CAICR_SUCCESS then
                         let (_, fr5) =
                               lldb_call (lldb_rollback_transaction P)
                                 Lldb_rollback_transaction fr4
                         in (Returned status,
                             emit Mtx_unlock (emit (Free_operation last_op) fr5))
                       else
                         (case reverse_operation L (fst fr4) last_op of
                           None \<Rightarrow> (Fault, fr4)
                         | Some rev_op \<Rightarrow>
                             let (status, fr5) =
                                   lldb_call (lldb_commit_transaction P)
                                     Lldb_commit_transaction fr4;
                                 fr6 = emit Mtx_unlock fr5
                             in if status \<noteq> CAICR_SUCCESS then
                                  (Returned status, emit (Free_operation last_op) fr6)
                                else
                                  let (status, fr7) =
                                        network_call (network_distribute_operation P rev_op)
                                          (Network_distribute_operation rev_op) fr6
                                  in (Returned status, emit (Free_operation last_op) fr7)))"

definition caicr_undo ::
  "libc \<Rightarrow> ('db, 'net) ports \<Rightarrow> ('db, 'net) world \<Rightarrow> nat option
     \<Rightarrow> outcome \<times> ('db, 'net) world" where
  "caicr_undo L P w instance =
     (case instance of
        None \<Rightarrow> (Returned CAICR_ERROR_INVALID_PARAMETER, w)
      | Some a \<Rightarrow>
          (case heap w a of
             None \<Rightarrow> (Fault, w)
           | Some inst \<Rightarrow>
               let (res, fr) = undo_frame L P (inst, [])
               in (res, commit_frame a fr w)))"

section \<open>caicr_redo, caicr_free_operation, caicr_register_operation_callback\<close>

text \<open>The body of \<open>caicr_redo\<close> is the single statement \<open>return CAICR_SUCCESS\<close>.\<close>

definition caicr_redo ::
  "('db, 'net) ports \<Rightarrow> ('db, 'net) world \<Rightarrow> nat option \<Rightarrow> outcome \<times> ('db, 'net) world" where
  "caicr_redo P w instance = (Returned CAICR_SUCCESS, w)"

definition caicr_free_operation ::
  "('db, 'net) world \<Rightarrow> CAICROperation option \<Rightarrow> ('db, 'net) world" where
  "caicr_free_operation w operation =
     (case operation of
        None \<Rightarrow> w
      | Some op \<Rightarrow> w\<lparr>trace := trace w @ [Free_operation op]\<rparr>)"

definition caicr_register_operation_callback ::
  "('db, 'net) world \<Rightarrow> nat option \<Rightarrow> nat option \<Rightarrow> nat option
     \<Rightarrow> outcome \<times> ('db, 'net) world" where
  "caicr_register_operation_callback w instance cb user_data =
     (case instance of
        None \<Rightarrow> (Returned CAICR_ERROR_INVALID_PARAMETER, w)
      | Some a \<Rightarrow>
          (case heap w a of
             None \<Rightarrow> (Fault, w)
           | Some inst \<Rightarrow>
               (Returned CAICR_SUCCESS,
                commit_frame a
                  (inst\<lparr>callback := cb, callback_user_data := user_data\<rparr>,
                   [Mtx_lock, Mtx_unlock]) w)))"

section \<open>caicr_shutdown\<close>

text \<open>
  \<open>signal_shutdown\<close> is what the first statement,
  \<open>atomic_store(&instance->is_running, false)\<close>, does to the instance: the state every
  other thread sees while \<open>thrd_join\<close> waits for the synchronisation thread. The store
  itself is the first event of the call. The rest joins, shuts both layers down, destroys
  the mutex and frees the instance (the three configuration strings are freed with it).
\<close>

definition signal_shutdown :: "nat \<Rightarrow> ('db, 'net) world \<Rightarrow> ('db, 'net) world" where
  "signal_shutdown a w =
     (case heap w a of
        None \<Rightarrow> w
      | Some inst \<Rightarrow> w\<lparr>heap := (heap w)(a := Some (inst\<lparr>is_running := False\<rparr>))\<rparr>)"

definition caicr_shutdown ::
  "('db, 'net) world \<Rightarrow> nat option \<Rightarrow> outcome \<times> ('db, 'net) world" where
  "caicr_shutdown w instance =
     (case instance of
        None \<Rightarrow> (Returned CAICR_ERROR_INVALID_PARAMETER, w)
      | Some a \<Rightarrow>
          (case heap w a of
             None \<Rightarrow> (Fault, w)
           | Some inst \<Rightarrow>
               let w1 = signal_shutdown a w;
                   w2 = w1\<lparr>trace := trace w1 @
                           [Atomic_store_is_running False, Thrd_join, Network_shutdown,
                            Lldb_shutdown, Mtx_destroy]\<rparr>
               in (Returned CAICR_SUCCESS,
                   w2\<lparr>heap := (heap w2)(a := None),
                      trace := trace w2 @ [Free_instance a]\<rparr>)))"

section \<open>caicr_initialize\<close>

text \<open>
  The second component of the result is what is written to \<open>*instance\<close> (nothing unless
  the call succeeds). The out-pointer itself is \<open>unit option\<close>: NULL or the address of
  the caller's variable. The new instance is visible to others only once it is complete,
  so it enters the store at the end; on the failure paths its address is freed again.
\<close>

definition caicr_initialize ::
  "libc \<Rightarrow> ('db, 'net) ports \<Rightarrow> ('db, 'net) world \<Rightarrow> CAICRConfig option \<Rightarrow> unit option
     \<Rightarrow> outcome \<times> nat option \<times> ('db, 'net) world" where
  "caicr_initialize L P w config_ptr instance_ptr =
     (case (config_ptr, instance_ptr) of
        (None, _) \<Rightarrow> (Returned CAICR_ERROR_INVALID_PARAMETER, None, w)
      | (Some cfg, None) \<Rightarrow> (Returned CAICR_ERROR_INVALID_PARAMETER, None, w)
      | (Some cfg, Some _) \<Rightarrow>
          if \<not> calloc_ok L then (Returned CAICR_ERROR_OUT_OF_MEMORY, None, w)
          else
            let new_instance = brk w;
                w1 = w\<lparr>brk := Suc (brk w)\<rparr>;
                leave = (\<lambda>es. w1\<lparr>trace := trace w1 @ es @ [Free_instance new_instance]\<rparr>)
            in
              (case (strdup L (CAICRConfig.instance_id cfg),
                     strdup L (project_root cfg),
                     strdup L (lldb_database_path cfg)) of
                 (Some iid, Some root, Some path) \<Rightarrow>
                   if iid = None \<or> root = None \<or> path = None then
                     (Returned CAICR_ERROR_OUT_OF_MEMORY, None, leave [])
                   else if \<not> mtx_init_ok L then
                     (Returned CAICR_ERROR_UNKNOWN, None, leave [Mtx_init])
                   else
                     let (status, db) =
                           lldb_initialize P (lldb_database_path cfg) (max_history_entries cfg)
                     in if status \<noteq> CAICR_SUCCESS then
                          (Returned status, None, leave [Mtx_init, Lldb_initialize, Mtx_destroy])
                        else
                          let (status, net) =
                                network_initialize P (CAICRConfig.instance_id cfg)
                                  (coordination_port cfg) (encryption_enabled cfg)
                          in if status \<noteq> CAICR_SUCCESS then
                               (Returned status, None,
                                leave [Mtx_init, Lldb_initialize, Network_initialize,
                                       Lldb_shutdown, Mtx_destroy])
                             else if \<not> thrd_create_ok L then
                               (Returned CAICR_ERROR_UNKNOWN, None,
                                leave [Mtx_init, Lldb_initialize, Network_initialize,
                                       Atomic_store_is_running True, Thrd_create,
                                       Atomic_store_is_running False, Network_shutdown,
                                       Lldb_shutdown, Mtx_destroy])
                             else
                               (Returned CAICR_SUCCESS, Some new_instance,
                                w1\<lparr>heap := (heap w1)(new_instance := Some
                                       \<lparr>config = \<lparr>CAICRConfig.instance_id = iid,
                                                  project_root = root,
                                                  lldb_database_path = path,
                                                  coordination_port = coordination_port cfg,
                                                  sync_interval_ms = sync_interval_ms cfg,
                                                  max_history_entries = max_history_entries cfg,
                                                  encryption_enabled = encryption_enabled cfg\<rparr>,
                                        lldb_context = db,
                                        network_context = net,
                                        is_running = True,
                                        callback = None,
                                        callback_user_data = None\<rparr>),
                                   trace := trace w1 @
                                     [Mtx_init, Lldb_initialize, Network_initialize,
                                      Atomic_store_is_running True, Thrd_create]\<rparr>)
               | _ \<Rightarrow> (Fault, None, w1)))"

section \<open>caicr_sync_thread_func\<close>

text \<open>The inner loop over the batch: every entry is stored, the status is dropped.\<close>

fun store_operations ::
  "('db, 'net) ports \<Rightarrow> CAICROperation list \<Rightarrow> ('db, 'net) frame \<Rightarrow> ('db, 'net) frame" where
  "store_operations P [] fr = fr"
| "store_operations P (current # rest) fr =
     store_operations P rest
       (snd (lldb_call (lldb_store_operation P current) (Lldb_store_operation current) fr))"

text \<open>
  One pass through the body of the \<open>while\<close> loop. The callback is the caller's code:
  its invocation is an event.
\<close>

definition sync_iteration ::
  "('db, 'net) ports \<Rightarrow> ('db, 'net) frame \<Rightarrow> ('db, 'net) frame" where
  "sync_iteration P fr0 =
     (let (_, fr1) = network_call (network_sync_state P) Network_sync_state fr0;
          ((status, operations), fr2) =
             network_call (network_get_pending_operations P) Network_get_pending_operations fr1;
          fr3 =
            (if status = CAICR_SUCCESS then
               (case callback (fst fr2) of
                  None \<Rightarrow> fr2
                | Some cb \<Rightarrow>
                    if operations \<noteq> [] then
                      let fr_cb = emit (Callback cb operations (callback_user_data (fst fr2))) fr2;
                          fr_locked = emit Mtx_lock fr_cb;
                          fr_stored = store_operations P operations fr_locked;
                          fr_unlocked = emit Mtx_unlock fr_stored;
                          (_, fr_freed) =
                             network_call (network_free_operations P operations)
                               (Network_free_operations operations) fr_unlocked
                      in fr_freed
                    else fr2)
             else fr2)
      in emit Thrd_sleep fr3)"

text \<open>
  The loop itself, with fuel: it ends when the running flag is found cleared and returns
  0; \<open>None\<close> is a loop still running when the fuel is spent. Only another thread clears
  the flag, so within one frame the loop ends at once or not at all.
\<close>

fun caicr_sync_thread_func ::
  "('db, 'net) ports \<Rightarrow> nat \<Rightarrow> ('db, 'net) frame \<Rightarrow> (int \<times> ('db, 'net) frame) option" where
  "caicr_sync_thread_func P 0 fr = (if is_running (fst fr) then None else Some (0, fr))"
| "caicr_sync_thread_func P (Suc n) fr =
     (if is_running (fst fr) then caicr_sync_thread_func P n (sync_iteration P fr)
      else Some (0, fr))"

text \<open>
  One scheduling step of the synchronisation thread of the instance at address \<open>a\<close>: the
  loop test and, when the flag is set, one pass through the body.
\<close>

definition sync_thread_step ::
  "('db, 'net) ports \<Rightarrow> nat \<Rightarrow> ('db, 'net) world \<Rightarrow> ('db, 'net) world" where
  "sync_thread_step P a w =
     (case heap w a of
        None \<Rightarrow> w
      | Some inst \<Rightarrow>
          if is_running inst then commit_frame a (sync_iteration P (inst, [])) w else w)"

section \<open>The placeholder layers of the repository\<close>

text \<open>
  caicr_lldb.c and caicr_network.c hold placeholders: every function answers
  \<open>CAICR_SUCCESS\<close>, \<open>caicr_lldb_get_last_operation\<close> and
  \<open>caicr_network_get_pending_operations\<close> hand back NULL, and
  \<open>caicr_network_initialize\<close> reports \<open>CAICR_ERROR_OUT_OF_MEMORY\<close> when its \<open>calloc\<close>
  fails (the argument \<open>ok\<close>).
\<close>

definition placeholder_ports :: "bool \<Rightarrow> (unit, unit) ports" where
  "placeholder_ports ok =
     \<lparr>lldb_initialize = (\<lambda>db_path max_history. (CAICR_SUCCESS, ())),
      lldb_begin_transaction = (\<lambda>db. (CAICR_SUCCESS, db)),
      lldb_commit_transaction = (\<lambda>db. (CAICR_SUCCESS, db)),
      lldb_rollback_transaction = (\<lambda>db. (CAICR_SUCCESS, db)),
      lldb_store_operation = (\<lambda>operation db. (CAICR_SUCCESS, db)),
      lldb_get_last_operation = (\<lambda>db. ((CAICR_SUCCESS, None), db)),
      lldb_mark_operation_undone = (\<lambda>operation_id db. (CAICR_SUCCESS, db)),
      network_initialize =
        (\<lambda>iid port enc. (if ok then CAICR_SUCCESS else CAICR_ERROR_OUT_OF_MEMORY, ())),
      network_distribute_operation = (\<lambda>operation net. (CAICR_SUCCESS, net)),
      network_sync_state = (\<lambda>net. (CAICR_SUCCESS, net)),
      network_get_pending_operations = (\<lambda>net. ((CAICR_SUCCESS, []), net)),
      network_free_operations = (\<lambda>operations net. (CAICR_SUCCESS, net))\<rparr>"

section \<open>A transactional log and a peer network for concrete runs\<close>

text \<open>
  Modelled from the spec: the persistence port of section 4.2 and the distribution port
  of section 4.3, whose bodies caicr_lldb.c and caicr_network.c leave as placeholders.
  The log is the list of committed entries (oldest first, each with its undone flag) and,
  while a transaction is open, a working copy. Transactions do not nest, \<open>store\<close> and
  \<open>markUndone\<close> are valid only inside a transaction, \<open>store\<close> assigns the next
  \<open>operationId\<close> (the first is 1) and keeps the other fields as given, \<open>getLast\<close> is a
  snapshot of the last entry not undone, a failed commit leaves the transaction open.
  \<open>failing\<close> lists the functions that report an error in this run.
\<close>

datatype lldb_function =
    Begin_transaction
  | Commit_transaction
  | Rollback_transaction
  | Store_operation
  | Get_last_operation
  | Mark_operation_undone

record memlog =
  committed :: "(CAICROperation \<times> bool) list"
  pending :: "(CAICROperation \<times> bool) list option"
  failing :: "lldb_function list"

definition memlog_begin_transaction :: "memlog \<Rightarrow> CAICRStatus \<times> memlog" where
  "memlog_begin_transaction db =
     (if Begin_transaction \<in> set (failing db) \<or> pending db \<noteq> None
      then (CAICR_ERROR_PERSISTENCE, db)
      else (CAICR_SUCCESS, db\<lparr>pending := Some (committed db)\<rparr>))"

definition memlog_store_operation :: "CAICROperation \<Rightarrow> memlog \<Rightarrow> CAICRStatus \<times> memlog" where
  "memlog_store_operation operation db =
     (case pending db of
        None \<Rightarrow> (CAICR_ERROR_PERSISTENCE, db)
      | Some es \<Rightarrow>
          if Store_operation \<in> set (failing db) then (CAICR_ERROR_PERSISTENCE, db)
          else (CAICR_SUCCESS,
                db\<lparr>pending :=
                     Some (es @ [(operation\<lparr>operation_id := of_nat (length es) + 1\<rparr>, False)])\<rparr>))"

definition memlog_commit_transaction :: "memlog \<Rightarrow> CAICRStatus \<times> memlog" where
  "memlog_commit_transaction db =
     (case pending db of
        None \<Rightarrow> (CAICR_ERROR_PERSISTENCE, db)
      | Some es \<Rightarrow>
          if Commit_transaction \<in> set (failing db) then (CAICR_ERROR_PERSISTENCE, db)
          else (CAICR_SUCCESS, db\<lparr>committed := es, pending := None\<rparr>))"

definition memlog_rollback_transaction :: "memlog \<Rightarrow> CAICRStatus \<times> memlog" where
  "memlog_rollback_transaction db =
     (case pending db of
        None \<Rightarrow> (CAICR_ERROR_PERSISTENCE, db)
      | Some es \<Rightarrow>
          if Rollback_transaction \<in> set (failing db) then (CAICR_ERROR_PERSISTENCE, db)
          else (CAICR_SUCCESS, db\<lparr>pending := None\<rparr>))"

definition memlog_get_last_operation ::
  "memlog \<Rightarrow> (CAICRStatus \<times> CAICROperation option) \<times> memlog" where
  "memlog_get_last_operation db =
     (if Get_last_operation \<in> set (failing db) then ((CAICR_ERROR_LLDB_QUERY, None), db)
      else
        (case rev (filter (\<lambda>e. \<not> snd e) (committed db)) of
           [] \<Rightarrow> ((CAICR_SUCCESS, None), db)
         | e # _ \<Rightarrow> ((CAICR_SUCCESS, Some (fst e)), db)))"

definition memlog_mark_operation_undone :: "64 word \<Rightarrow> memlog \<Rightarrow> CAICRStatus \<times> memlog" where
  "memlog_mark_operation_undone oid db =
     (case pending db of
        None \<Rightarrow> (CAICR_ERROR_PERSISTENCE, db)
      | Some es \<Rightarrow>
          if Mark_operation_undone \<in> set (failing db) then (CAICR_ERROR_PERSISTENCE, db)
          else (CAICR_SUCCESS,
                db\<lparr>pending :=
                     Some (map (\<lambda>e. if operation_id (fst e) = oid then (fst e, True) else e) es)\<rparr>))"

text \<open>
  The peers: what has been broadcast, what has arrived and is not yet drained, and whether
  the peers can be reached (a broadcast fails when they cannot).
\<close>

record peers =
  broadcast :: "CAICROperation list"
  arrived :: "CAICROperation list"
  reachable :: bool

definition peers_distribute_operation :: "CAICROperation \<Rightarrow> peers \<Rightarrow> CAICRStatus \<times> peers" where
  "peers_distribute_operation operation net =
     (if reachable net then (CAICR_SUCCESS, net\<lparr>broadcast := broadcast net @ [operation]\<rparr>)
      else (CAICR_ERROR_INSTANCE_DISCOVERY, net))"

definition peers_get_pending_operations ::
  "peers \<Rightarrow> (CAICRStatus \<times> CAICROperation list) \<times> peers" where
  "peers_get_pending_operations net = ((CAICR_SUCCESS, arrived net), net\<lparr>arrived := []\<rparr>)"

definition memlog_ports :: "(memlog, peers) ports" where
  "memlog_ports =
     \<lparr>lldb_initialize =
        (\<lambda>db_path max_history. (CAICR_SUCCESS, \<lparr>committed = [], pending = None, failing = []\<rparr>)),
      lldb_begin_transaction = memlog_begin_transaction,
      lldb_commit_transaction = memlog_commit_transaction,
      lldb_rollback_transaction = memlog_rollback_transaction,
      lldb_store_operation = memlog_store_operation,
      lldb_get_last_operation = memlog_get_last_operation,
      lldb_mark_operation_undone = memlog_mark_operation_undone,
      network_initialize =
        (\<lambda>iid port enc. (CAICR_SUCCESS, \<lparr>broadcast = [], arrived = [], reachable = True\<rparr>)),
      network_distribute_operation = peers_distribute_operation,
      network_sync_state =
        (\<lambda>net. (if reachable net then CAICR_SUCCESS else CAICR_ERROR_INSTANCE_DISCOVERY, net)),
      network_get_pending_operations = peers_get_pending_operations,
      network_free_operations = (\<lambda>operations net. (CAICR_SUCCESS, net))\<rparr>"

section \<open>Concrete inputs\<close>

text \<open>
  The configuration and the operation that the sample client (cursor_ai_client.c) builds:
  an insertion at line 1, column 1 of sample.txt whose \<open>timestamp_ns\<close> and
  \<open>operation_id\<close> are 0, commented there as "will be set by the runtime".
\<close>

definition client_config :: CAICRConfig where
  "client_config =
     \<lparr>CAICRConfig.instance_id = Some ''0b2a5d1e-6c1f-4c55-9a58-3f6f2f1f7a10'',
      project_root = Some ''/srv/project'',
      lldb_database_path = Some ''/srv/project/.caicr_history.db'',
      coordination_port = 15001,
      sync_interval_ms = 1000,
      max_history_entries = 1000,
      encryption_enabled = True\<rparr>"

definition client_operation :: "string \<Rightarrow> CAICROperation" where
  "client_operation command =
     \<lparr>type = CAICR_OP_INSERT,
      file_path = Some ''sample.txt'',
      line_number = 1,
      column_number = 1,
      content = Some command,
      content_length = of_nat (length command),
      timestamp_ns = 0,
      instance_id = CAICRConfig.instance_id client_config,
      operation_id = 0\<rparr>"

definition all_ok :: libc where
  "all_ok = \<lparr>calloc_ok = True, strdup_ok = (\<lambda>s. True), mtx_init_ok = True,
             thrd_create_ok = True\<rparr>"

text \<open>A C library in which every call succeeds but the \<open>strdup\<close> of one given string.\<close>

definition no_memory_for :: "string \<Rightarrow> libc" where
  "no_memory_for cs = all_ok\<lparr>strdup_ok := (\<lambda>s. s \<noteq> cs)\<rparr>"

text \<open>
  A running instance of the client's configuration over given layer contexts, and the
  world in which it is the one live instance, at address 0.
\<close>

definition client_instance :: "'db \<Rightarrow> 'net \<Rightarrow> nat option \<Rightarrow> ('db, 'net) CAICRInstance_t" where
  "client_instance db net cb =
     \<lparr>config = client_config, lldb_context = db, network_context = net,
      is_running = True, callback = cb, callback_user_data = None\<rparr>"

definition one_instance :: "'db \<Rightarrow> 'net \<Rightarrow> nat option \<Rightarrow> ('db, 'net) world" where
  "one_instance db net cb =
     \<lparr>heap = (\<lambda>a. None)(0 := Some (client_instance db net cb)), brk = 1, trace = []\<rparr>"

text \<open>The world before any instance has been initialised.\<close>

definition no_instances :: "('db, 'net) world" where
  "no_instances = \<lparr>heap = (\<lambda>a. None), brk = 0, trace = []\<rparr>"

text \<open>The placeholder persistence layer, except that every commit reports an error.\<close>

definition placeholder_ports_failing_commit :: "(unit, unit) ports" where
  "placeholder_ports_failing_commit =
     (placeholder_ports True)
       \<lparr>lldb_commit_transaction := (\<lambda>db. (CAICR_ERROR_PERSISTENCE, db))\<rparr>"

definition empty_log :: "lldb_function list \<Rightarrow> memlog" where
  "empty_log fs = \<lparr>committed = [], pending = None, failing = fs\<rparr>"

text \<open>The log after the given operations have been stored and committed, in one transaction.\<close>

definition log_of :: "CAICROperation list \<Rightarrow> memlog" where
  "log_of ops =
     snd (memlog_commit_transaction
       (foldl (\<lambda>db operation. snd (memlog_store_operation operation db))
          (snd (memlog_begin_transaction (empty_log []))) ops))"

definition peers_up :: peers where
  "peers_up = \<lparr>broadcast = [], arrived = [], reachable = True\<rparr>"

definition peers_down :: peers where
  "peers_down = \<lparr>broadcast = [], arrived = [], reachable = False\<rparr>"

section \<open>Unfolding lemmas\<close>

lemmas frame_defs = emit_def lldb_call_def network_call_def commit_frame_def

lemma stored_append: "stored (xs @ ys) = stored xs @ stored ys"
  by (induction xs) (simp_all split: event.splits)

subsection \<open>The four paths through the body of caicr_submit_operation\<close>

lemma submit_frame_begin_fails:
  assumes "lldb_begin_transaction P (lldb_context inst) = (s1, db1)"
    and "s1 \<noteq> CAICR_SUCCESS"
  shows "submit_frame P operation (inst, tr) =
           (s1, (inst\<lparr>lldb_context := db1\<rparr>,
                 tr @ [Mtx_lock, Lldb_begin_transaction, Mtx_unlock]))"
  using assms by (simp add: submit_frame_def frame_defs)

lemma submit_frame_store_fails:
  assumes "lldb_begin_transaction P (lldb_context inst) = (CAICR_SUCCESS, db1)"
    and "lldb_store_operation P operation db1 = (s2, db2)"
    and "s2 \<noteq> CAICR_SUCCESS"
    and "lldb_rollback_transaction P db2 = (s3, db3)"
  shows "submit_frame P operation (inst, tr) =
           (s2, (inst\<lparr>lldb_context := db3\<rparr>,
                 tr @ [Mtx_lock, Lldb_begin_transaction, Lldb_store_operation operation,
                       Lldb_rollback_transaction, Mtx_unlock]))"
  using assms by (simp add: submit_frame_def frame_defs)

lemma submit_frame_commit_fails:
  assumes "lldb_begin_transaction P (lldb_context inst) = (CAICR_SUCCESS, db1)"
    and "lldb_store_operation P operation db1 = (CAICR_SUCCESS, db2)"
    and "lldb_commit_transaction P db2 = (s4, db4)"
    and "s4 \<noteq> CAICR_SUCCESS"
  shows "submit_frame P operation (inst, tr) =
           (s4, (inst\<lparr>lldb_context := db4\<rparr>,
                 tr @ [Mtx_lock, Lldb_begin_transaction, Lldb_store_operation operation,
                       Lldb_commit_transaction, Mtx_unlock]))"
  using assms by (simp add: submit_frame_def frame_defs)

lemma submit_frame_committed:
  assumes "lldb_begin_transaction P (lldb_context inst) = (CAICR_SUCCESS, db1)"
    and "lldb_store_operation P operation db1 = (CAICR_SUCCESS, db2)"
    and "lldb_commit_transaction P db2 = (CAICR_SUCCESS, db3)"
    and "network_distribute_operation P operation (network_context inst) = (s, net1)"
  shows "submit_frame P operation (inst, tr) =
           (s, (inst\<lparr>lldb_context := db3, network_context := net1\<rparr>,
                 tr @ [Mtx_lock, Lldb_begin_transaction, Lldb_store_operation operation,
                       Lldb_commit_transaction, Mtx_unlock,
                       Network_distribute_operation operation]))"
  using assms by (simp add: submit_frame_def frame_defs)

subsection \<open>Definitions unfolded in concrete runs\<close>

lemmas memlog_defs =
  memlog_ports_def memlog_begin_transaction_def memlog_store_operation_def
  memlog_commit_transaction_def memlog_rollback_transaction_def
  memlog_get_last_operation_def memlog_mark_operation_undone_def
  peers_distribute_operation_def peers_get_pending_operations_def
  empty_log_def log_of_def peers_up_def peers_down_def

lemmas world_defs =
  one_instance_def client_instance_def lldb_context_of_def network_context_of_def

section \<open>Persistence failures in submit\<close>

text \<open>
  Claim C1, as amended. When \<open>caicr_lldb_store_operation\<close> fails inside
  \<open>caicr_submit_operation\<close>, the transaction is rolled back under the lock before the
  store's status is returned, and the persistence context is what the rollback left.
  When \<open>caicr_lldb_commit_transaction\<close> fails, the commit's status is returned after
  the unlock; no rollback is issued and the persistence context is what the failed
  commit left. Nothing is distributed in either case.
\<close>

theorem submit_persistence_failure:
  assumes "heap w a = Some inst"
    and "lldb_begin_transaction P (lldb_context inst) = (CAICR_SUCCESS, db1)"
    and "lldb_store_operation P operation db1 = (s2, db2)"
    and "lldb_rollback_transaction P db2 = (s3, db3)"
    and "lldb_commit_transaction P db2 = (s4, db4)"
  shows "(s2 \<noteq> CAICR_SUCCESS \<longrightarrow>
            caicr_submit_operation P w (Some a) (Some operation) =
              (Returned s2,
               w\<lparr>heap := (heap w)(a := Some (inst\<lparr>lldb_context := db3\<rparr>)),
                  trace := trace w @ [Mtx_lock, Lldb_begin_transaction,
                     Lldb_store_operation operation, Lldb_rollback_transaction, Mtx_unlock]\<rparr>))
       \<and> (s2 = CAICR_SUCCESS \<and> s4 \<noteq> CAICR_SUCCESS \<longrightarrow>
            caicr_submit_operation P w (Some a) (Some operation) =
              (Returned s4,
               w\<lparr>heap := (heap w)(a := Some (inst\<lparr>lldb_context := db4\<rparr>)),
                  trace := trace w @ [Mtx_lock, Lldb_begin_transaction,
                     Lldb_store_operation operation, Lldb_commit_transaction, Mtx_unlock]\<rparr>))"
proof (intro conjI impI)
  assume "s2 \<noteq> CAICR_SUCCESS"
  then show "caicr_submit_operation P w (Some a) (Some operation) =
              (Returned s2,
               w\<lparr>heap := (heap w)(a := Some (inst\<lparr>lldb_context := db3\<rparr>)),
                  trace := trace w @ [Mtx_lock, Lldb_begin_transaction,
                     Lldb_store_operation operation, Lldb_rollback_transaction, Mtx_unlock]\<rparr>)"
    using assms submit_frame_store_fails [of P inst db1 operation s2 db2 s3 db3 "[]"]
    by (simp add: caicr_submit_operation_def commit_frame_def)
next
  assume "s2 = CAICR_SUCCESS \<and> s4 \<noteq> CAICR_SUCCESS"
  then show "caicr_submit_operation P w (Some a) (Some operation) =
              (Returned s4,
               w\<lparr>heap := (heap w)(a := Some (inst\<lparr>lldb_context := db4\<rparr>)),
                  trace := trace w @ [Mtx_lock, Lldb_begin_transaction,
                     Lldb_store_operation operation, Lldb_commit_transaction, Mtx_unlock]\<rparr>)"
    using assms submit_frame_commit_fails [of P inst db1 operation db2 s4 db4 "[]"]
    by (simp add: caicr_submit_operation_def commit_frame_def)
qed

text \<open>
  Both cases on the transactional log: with a failing store the log and its transaction
  state end as they began; with a failing commit the error comes back without a rollback.
\<close>

theorem submit_persistence_failure_witness:
  "fst (caicr_submit_operation memlog_ports
          (one_instance (empty_log [Store_operation]) peers_up None) (Some 0)
          (Some (client_operation ''hi''))) = Returned CAICR_ERROR_PERSISTENCE
   \<and> trace (snd (caicr_submit_operation memlog_ports
          (one_instance (empty_log [Store_operation]) peers_up None) (Some 0)
          (Some (client_operation ''hi'')))) =
       [Mtx_lock, Lldb_begin_transaction, Lldb_store_operation (client_operation ''hi''),
        Lldb_rollback_transaction, Mtx_unlock]
   \<and> lldb_context_of (snd (caicr_submit_operation memlog_ports
          (one_instance (empty_log [Store_operation]) peers_up None) (Some 0)
          (Some (client_operation ''hi'')))) 0 = Some (empty_log [Store_operation])
   \<and> fst (caicr_submit_operation memlog_ports
          (one_instance (empty_log [Commit_transaction]) peers_up None) (Some 0)
          (Some (client_operation ''hi''))) = Returned CAICR_ERROR_PERSISTENCE
   \<and> trace (snd (caicr_submit_operation memlog_ports
          (one_instance (empty_log [Commit_transaction]) peers_up None) (Some 0)
          (Some (client_operation ''hi'')))) =
       [Mtx_lock, Lldb_begin_transaction, Lldb_store_operation (client_operation ''hi''),
        Lldb_commit_transaction, Mtx_unlock]"
proof -
  let ?op = "client_operation ''hi''"
  let ?ws = "one_instance (empty_log [Store_operation]) peers_up None"
  let ?is = "client_instance (empty_log [Store_operation]) peers_up None"
  let ?ds = "(empty_log [Store_operation])\<lparr>pending := Some []\<rparr>"
  have s1: "heap ?ws 0 = Some ?is"
    by (simp add: one_instance_def)
  have s2: "lldb_begin_transaction memlog_ports (lldb_context ?is) = (CAICR_SUCCESS, ?ds)"
    by (simp add: memlog_defs client_instance_def)
  have s3: "lldb_store_operation memlog_ports ?op ?ds = (CAICR_ERROR_PERSISTENCE, ?ds)"
    by (simp add: memlog_defs)
  have s4: "lldb_rollback_transaction memlog_ports ?ds =
              (CAICR_SUCCESS, empty_log [Store_operation])"
    by (simp add: memlog_defs)
  have s5: "lldb_commit_transaction memlog_ports ?ds =
              (CAICR_SUCCESS, empty_log [Store_operation])"
    by (simp add: memlog_defs)
  let ?wc = "one_instance (empty_log [Commit_transaction]) peers_up None"
  let ?ic = "client_instance (empty_log [Commit_transaction]) peers_up None"
  let ?dc = "(empty_log [Commit_transaction])\<lparr>pending := Some []\<rparr>"
  let ?dc2 = "(empty_log [Commit_transaction])
                \<lparr>pending := Some [(?op\<lparr>operation_id := 1\<rparr>, False)]\<rparr>"
  have c1: "heap ?wc 0 = Some ?ic"
    by (simp add: one_instance_def)
  have c2: "lldb_begin_transaction memlog_ports (lldb_context ?ic) = (CAICR_SUCCESS, ?dc)"
    by (simp add: memlog_defs client_instance_def)
  have c3: "lldb_store_operation memlog_ports ?op ?dc = (CAICR_SUCCESS, ?dc2)"
    by (simp add: memlog_defs)
  have c4: "lldb_rollback_transaction memlog_ports ?dc2 =
              (CAICR_SUCCESS, empty_log [Commit_transaction])"
    by (simp add: memlog_defs)
  have c5: "lldb_commit_transaction memlog_ports ?dc2 = (CAICR_ERROR_PERSISTENCE, ?dc2)"
    by (simp add: memlog_defs)
  from submit_persistence_failure [OF s1 s2 s3 s4 s5]
       submit_persistence_failure [OF c1 c2 c3 c4 c5]
  show ?thesis
    by (simp add: lldb_context_of_def one_instance_def)
qed

text \<open>
  The claim as stated fails for a failing commit. Over the placeholder layer with a
  failing commit the call returns the commit's error and no rollback is among the calls
  made; on the transactional log, moreover, the transaction with the stored entry is
  still open afterwards.
\<close>

theorem submit_commit_failure_counterexample:
  "caicr_submit_operation placeholder_ports_failing_commit (one_instance () () None) (Some 0)
     (Some (client_operation ''hi'')) =
     (Returned CAICR_ERROR_PERSISTENCE,
      (one_instance () () None)
        \<lparr>trace := [Mtx_lock, Lldb_begin_transaction,
                    Lldb_store_operation (client_operation ''hi''),
                    Lldb_commit_transaction, Mtx_unlock]\<rparr>)
   \<and> fst (caicr_submit_operation memlog_ports
          (one_instance (empty_log [Commit_transaction]) peers_up None) (Some 0)
          (Some (client_operation ''hi''))) = Returned CAICR_ERROR_PERSISTENCE
   \<and> trace (snd (caicr_submit_operation memlog_ports
          (one_instance (empty_log [Commit_transaction]) peers_up None) (Some 0)
          (Some (client_operation ''hi'')))) =
       [Mtx_lock, Lldb_begin_transaction, Lldb_store_operation (client_operation ''hi''),
        Lldb_commit_transaction, Mtx_unlock]
   \<and> lldb_context_of (snd (caicr_submit_operation memlog_ports
          (one_instance (empty_log [Commit_transaction]) peers_up None) (Some 0)
          (Some (client_operation ''hi'')))) 0 =
       Some ((empty_log [Commit_transaction])
               \<lparr>pending := Some [((client_operation ''hi'')\<lparr>operation_id := 1\<rparr>, False)]\<rparr>)"
  by (simp add: caicr_submit_operation_def submit_frame_def frame_defs memlog_defs world_defs
        placeholder_ports_failing_commit_def placeholder_ports_def)

section \<open>Distribution failures in submit\<close>

text \<open>
  Claim C2. When the transaction of a submit has committed and
  \<open>caicr_network_distribute_operation\<close> then fails, the call returns the distribution
  error; the persistence context is the one the successful commit left (no persistence
  call follows the commit), and the distribute call comes after the unlock.
\<close>

theorem submit_distribution_failure:
  assumes "heap w a = Some inst"
    and "lldb_begin_transaction P (lldb_context inst) = (CAICR_SUCCESS, db1)"
    and "lldb_store_operation P operation db1 = (CAICR_SUCCESS, db2)"
    and "lldb_commit_transaction P db2 = (CAICR_SUCCESS, db3)"
    and "network_distribute_operation P operation (network_context inst) = (s, net1)"
    and "s \<noteq> CAICR_SUCCESS"
  shows "caicr_submit_operation P w (Some a) (Some operation) =
           (Returned s,
            w\<lparr>heap := (heap w)(a := Some (inst\<lparr>lldb_context := db3, network_context := net1\<rparr>)),
               trace := trace w @ [Mtx_lock, Lldb_begin_transaction,
                  Lldb_store_operation operation, Lldb_commit_transaction, Mtx_unlock,
                  Network_distribute_operation operation]\<rparr>)"
  using assms submit_frame_committed [of P inst db1 operation db2 db3 s net1 "[]"]
  by (simp add: caicr_submit_operation_def commit_frame_def)

text \<open>
  On the transactional log with unreachable peers: the error of the broadcast is
  returned and the log holds the operation, under the identifier 1.
\<close>

theorem submit_distribution_failure_witness:
  "fst (caicr_submit_operation memlog_ports
          (one_instance (empty_log []) peers_down None) (Some 0)
          (Some (client_operation ''hi''))) = Returned CAICR_ERROR_INSTANCE_DISCOVERY
   \<and> trace (snd (caicr_submit_operation memlog_ports
          (one_instance (empty_log []) peers_down None) (Some 0)
          (Some (client_operation ''hi'')))) =
       [Mtx_lock, Lldb_begin_transaction, Lldb_store_operation (client_operation ''hi''),
        Lldb_commit_transaction, Mtx_unlock,
        Network_distribute_operation (client_operation ''hi'')]
   \<and> lldb_context_of (snd (caicr_submit_operation memlog_ports
          (one_instance (empty_log []) peers_down None) (Some 0)
          (Some (client_operation ''hi'')))) 0 =
       Some (log_of [client_operation ''hi''])"
proof -
  let ?op = "client_operation ''hi''"
  let ?w = "one_instance (empty_log []) peers_down None"
  let ?i = "client_instance (empty_log []) peers_down None"
  let ?d1 = "(empty_log [])\<lparr>pending := Some []\<rparr>"
  let ?d2 = "(empty_log [])\<lparr>pending := Some [(?op\<lparr>operation_id := 1\<rparr>, False)]\<rparr>"
  have h1: "heap ?w 0 = Some ?i"
    by (simp add: one_instance_def)
  have h2: "lldb_begin_transaction memlog_ports (lldb_context ?i) = (CAICR_SUCCESS, ?d1)"
    by (simp add: memlog_defs client_instance_def)
  have h3: "lldb_store_operation memlog_ports ?op ?d1 = (CAICR_SUCCESS, ?d2)"
    by (simp add: memlog_defs)
  have h4: "lldb_commit_transaction memlog_ports ?d2 = (CAICR_SUCCESS, log_of [?op])"
    by (simp add: memlog_defs)
  have h5: "network_distribute_operation memlog_ports ?op (network_context ?i) =
              (CAICR_ERROR_INSTANCE_DISCOVERY, peers_down)"
    by (simp add: memlog_defs client_instance_def)
  have h6: "CAICR_ERROR_INSTANCE_DISCOVERY \<noteq> CAICR_SUCCESS"
    by simp
  from submit_distribution_failure [OF h1 h2 h3 h4 h5 h6]
  show ?thesis
    by (simp add: lldb_context_of_def one_instance_def)
qed

section \<open>What submit hands to the persistence layer\<close>

text \<open>
  Claim C3, evaluated on the code. Once the transaction has begun, the one operation that
  \<open>caicr_submit_operation\<close> hands to \<open>caicr_lldb_store_operation\<close> is the caller's
  operation as given: the runtime assigns no \<open>timestamp_ns\<close> (and no
  \<open>operation_id\<close>) before the append.
\<close>

theorem submit_stores_operation_as_given:
  assumes "heap w a = Some inst"
    and "lldb_begin_transaction P (lldb_context inst) = (CAICR_SUCCESS, db1)"
  shows "stored (trace (snd (caicr_submit_operation P w (Some a) (Some operation)))) =
           stored (trace w) @ [operation]"
proof -
  obtain s2 db2 where st: "lldb_store_operation P operation db1 = (s2, db2)"
    by (cases "lldb_store_operation P operation db1")
  obtain s3 db3 where rb: "lldb_rollback_transaction P db2 = (s3, db3)"
    by (cases "lldb_rollback_transaction P db2")
  obtain s4 db4 where cm: "lldb_commit_transaction P db2 = (s4, db4)"
    by (cases "lldb_commit_transaction P db2")
  obtain s5 net5 where ds:
    "network_distribute_operation P operation (network_context inst) = (s5, net5)"
    by (cases "network_distribute_operation P operation (network_context inst)")
  show ?thesis
  proof (cases "s2 = CAICR_SUCCESS")
    case False
    with assms st rb show ?thesis
      by (simp add: caicr_submit_operation_def commit_frame_def stored_append
            submit_frame_store_fails [of P inst db1 operation s2 db2 s3 db3 "[]"])
  next
    case stored_ok: True
    show ?thesis
    proof (cases "s4 = CAICR_SUCCESS")
      case False
      with assms st cm stored_ok show ?thesis
        by (simp add: caicr_submit_operation_def commit_frame_def stored_append
              submit_frame_commit_fails [of P inst db1 operation db2 s4 db4 "[]"])
    next
      case True
      with assms st cm ds stored_ok show ?thesis
        by (simp add: caicr_submit_operation_def commit_frame_def stored_append
              submit_frame_committed [of P inst db1 operation db2 db4 s5 net5 "[]"])
    qed
  qed
qed

text \<open>
  The client's operation, whose \<open>timestamp_ns\<close> is 0, reaches the store unchanged, with
  the transactional log and with the placeholder layer; the log assigns the identifier 1
  and persists the timestamp 0.
\<close>

theorem submit_stores_operation_as_given_witness:
  "stored (trace (snd (caicr_submit_operation memlog_ports
      (one_instance (empty_log []) peers_up None) (Some 0)
      (Some (client_operation ''hi''))))) = [client_operation ''hi'']
   \<and> timestamp_ns (client_operation ''hi'') = 0
   \<and> operation_id (client_operation ''hi'') = 0
   \<and> map_option (map fst \<circ> committed)
        (lldb_context_of (snd (caicr_submit_operation memlog_ports
           (one_instance (empty_log []) peers_up None) (Some 0)
           (Some (client_operation ''hi'')))) 0) =
       Some [(client_operation ''hi'')\<lparr>operation_id := 1\<rparr>]
   \<and> stored (trace (snd (caicr_submit_operation (placeholder_ports True)
      (one_instance () () None) (Some 0)
      (Some (client_operation ''hi''))))) = [client_operation ''hi'']"
proof -
  let ?i = "client_instance (empty_log []) peers_up None"
  have h1: "heap (one_instance (empty_log []) peers_up None) 0 = Some ?i"
    by (simp add: one_instance_def)
  have h2: "lldb_begin_transaction memlog_ports (lldb_context ?i) =
              (CAICR_SUCCESS, (empty_log [])\<lparr>pending := Some []\<rparr>)"
    by (simp add: memlog_defs client_instance_def)
  have p1: "heap (one_instance () () None) 0 = Some (client_instance () () None)"
    by (simp add: one_instance_def)
  have p2: "lldb_begin_transaction (placeholder_ports True)
              (lldb_context (client_instance () () None)) = (CAICR_SUCCESS, ())"
    by (simp add: placeholder_ports_def)
  have run: "lldb_context_of (snd (caicr_submit_operation memlog_ports
           (one_instance (empty_log []) peers_up None) (Some 0)
           (Some (client_operation ''hi'')))) 0 =
       Some (log_of [client_operation ''hi''])"
    by (simp add: caicr_submit_operation_def submit_frame_def frame_defs memlog_defs world_defs)
  from submit_stores_operation_as_given [OF h1 h2, of "client_operation ''hi''"]
  have a: "stored (trace (snd (caicr_submit_operation memlog_ports
      (one_instance (empty_log []) peers_up None) (Some 0)
      (Some (client_operation ''hi''))))) = [client_operation ''hi'']"
    by (simp add: one_instance_def)
  from submit_stores_operation_as_given [OF p1 p2, of "client_operation ''hi''"]
  have b: "stored (trace (snd (caicr_submit_operation (placeholder_ports True)
      (one_instance () () None) (Some 0)
      (Some (client_operation ''hi''))))) = [client_operation ''hi'']"
    by (simp add: one_instance_def)
  have c: "timestamp_ns (client_operation ''hi'') = 0"
    and d: "operation_id (client_operation ''hi'') = 0"
    by (simp_all add: client_operation_def)
  have e: "map_option (map fst \<circ> committed) (Some (log_of [client_operation ''hi''])) =
             Some [(client_operation ''hi'')\<lparr>operation_id := 1\<rparr>]"
    by (simp add: memlog_defs)
  from a b c d e show ?thesis
    by (simp only: run simp_thms)
qed

section \<open>Undo\<close>

subsection \<open>String copies\<close>

lemma c_str_no_nul: "CHR 0x00 \<notin> set cs \<Longrightarrow> c_str cs = cs"
  by (auto simp add: c_str_def)

lemma strdup_copies:
  "CHR 0x00 \<notin> set cs \<Longrightarrow> strdup_ok L cs \<Longrightarrow> strdup L (Some cs) = Some (Some cs)"
  by (simp add: strdup_def c_str_no_nul)

lemma strdup_no_memory:
  "\<not> strdup_ok L (c_str cs) \<Longrightarrow> strdup L (Some cs) = Some None"
  by (simp add: strdup_def)

subsection \<open>The reversal operation and the paths through caicr_undo\<close>

lemma reverse_operation_context [simp]:
  "reverse_operation L (inst\<lparr>lldb_context := db\<rparr>) last_op = reverse_operation L inst last_op"
  by (simp add: reverse_operation_def)

lemma reverse_operation_Some:
  assumes "reverse_operation L inst last_op = Some rev_op"
  shows "strdup L (file_path last_op) = Some (file_path rev_op)"
    and "strdup L (CAICRConfig.instance_id (config inst)) = Some (instance_id rev_op)"
    and "line_number rev_op = line_number last_op"
    and "column_number rev_op = column_number last_op"
    and "timestamp_ns rev_op = 0"
    and "operation_id rev_op = 0"
    and "type last_op = CAICR_OP_INSERT \<Longrightarrow>
           type rev_op = CAICR_OP_DELETE \<and> content rev_op = None \<and> content_length rev_op = 0"
    and "type last_op = CAICR_OP_DELETE \<Longrightarrow>
           type rev_op = CAICR_OP_INSERT \<and> strdup L (content last_op) = Some (content rev_op)
           \<and> content_length rev_op = content_length last_op"
    and "type last_op \<noteq> CAICR_OP_INSERT \<Longrightarrow> type last_op \<noteq> CAICR_OP_DELETE \<Longrightarrow>
           type rev_op = CAICR_OP_REPLACE \<and> content rev_op = None \<and> content_length rev_op = 0"
  using assms
  by (auto simp: reverse_operation_def split: option.splits if_splits)

lemma undo_frame_no_operation:
  assumes "lldb_get_last_operation P (lldb_context inst) = ((s, None), db1)"
  shows "undo_frame L P (inst, tr) =
           (Returned (if s \<noteq> CAICR_SUCCESS then s else CAICR_ERROR_OPERATION_EXECUTION),
            (inst\<lparr>lldb_context := db1\<rparr>, tr @ [Mtx_lock, Lldb_get_last_operation, Mtx_unlock]))"
  using assms by (simp add: undo_frame_def frame_defs)

lemma undo_frame_success:
  assumes "lldb_get_last_operation P (lldb_context inst) = ((CAICR_SUCCESS, Some last_op), db1)"
    and "undo_frame L P (inst, tr) = (Returned CAICR_SUCCESS, fr)"
  shows "\<exists>rev_op db2 db3 db4 net1.
           reverse_operation L inst last_op = Some rev_op
         \<and> lldb_begin_transaction P db1 = (CAICR_SUCCESS, db2)
         \<and> lldb_mark_operation_undone P (operation_id last_op) db2 = (CAICR_SUCCESS, db3)
         \<and> lldb_commit_transaction P db3 = (CAICR_SUCCESS, db4)
         \<and> network_distribute_operation P rev_op (network_context inst) = (CAICR_SUCCESS, net1)
         \<and> fr = (inst\<lparr>lldb_context := db4, network_context := net1\<rparr>,
                 tr @ [Mtx_lock, Lldb_get_last_operation, Lldb_begin_transaction,
                   Lldb_mark_operation_undone (operation_id last_op), Lldb_commit_transaction,
                   Mtx_unlock, Network_distribute_operation rev_op, Free_operation last_op])"
  using assms
  by (auto simp: undo_frame_def frame_defs Let_def split: prod.splits if_splits option.splits)

subsection \<open>Undo on an empty log\<close>

text \<open>
  Claim C5. When the persistence layer reports success and no last operation (the log is
  empty), \<open>caicr_undo\<close> returns \<open>CAICR_ERROR_OPERATION_EXECUTION\<close>, the status it
  keeps for "no operation to undo". The only calls made are the lock, the read of the
  last operation and the unlock: no transaction is begun, nothing is marked undone,
  nothing is distributed, and the persistence context is the one the read left.
\<close>

theorem undo_empty_log:
  assumes "heap w a = Some inst"
    and "lldb_get_last_operation P (lldb_context inst) = ((CAICR_SUCCESS, None), db1)"
  shows "caicr_undo L P w (Some a) =
           (Returned CAICR_ERROR_OPERATION_EXECUTION,
            w\<lparr>heap := (heap w)(a := Some (inst\<lparr>lldb_context := db1\<rparr>)),
               trace := trace w @ [Mtx_lock, Lldb_get_last_operation, Mtx_unlock]\<rparr>)"
  using assms undo_frame_no_operation [of P inst CAICR_SUCCESS db1 L "[]"]
  by (simp add: caicr_undo_def commit_frame_def)

text \<open>
  On the empty transactional log and on the placeholder layer (whose read always hands
  back NULL): the world after the call differs from the one before by the three events.
\<close>

theorem undo_empty_log_witness:
  "caicr_undo all_ok memlog_ports (one_instance (empty_log []) peers_up None) (Some 0) =
     (Returned CAICR_ERROR_OPERATION_EXECUTION,
      (one_instance (empty_log []) peers_up None)
        \<lparr>trace := [Mtx_lock, Lldb_get_last_operation, Mtx_unlock]\<rparr>)
   \<and> caicr_undo all_ok (placeholder_ports True) (one_instance () () None) (Some 0) =
     (Returned CAICR_ERROR_OPERATION_EXECUTION,
      (one_instance () () None)\<lparr>trace := [Mtx_lock, Lldb_get_last_operation, Mtx_unlock]\<rparr>)"
proof -
  let ?i = "client_instance (empty_log []) peers_up None"
  have h1: "heap (one_instance (empty_log []) peers_up None) 0 = Some ?i"
    by (simp add: one_instance_def)
  have h2: "lldb_get_last_operation memlog_ports (lldb_context ?i) =
              ((CAICR_SUCCESS, None), empty_log [])"
    by (simp add: memlog_defs client_instance_def)
  have p1: "heap (one_instance () () None) 0 = Some (client_instance () () None)"
    by (simp add: one_instance_def)
  have p2: "lldb_get_last_operation (placeholder_ports True)
              (lldb_context (client_instance () () None)) = ((CAICR_SUCCESS, None), ())"
    by (simp add: placeholder_ports_def)
  from undo_empty_log [OF h1 h2, of all_ok] undo_empty_log [OF p1 p2, of all_ok]
  show ?thesis
    by (simp add: one_instance_def client_instance_def)
qed

subsection \<open>The reversal that undo distributes\<close>

text \<open>
  Claim C4, evaluated on the code. A successful \<open>caicr_undo\<close> on a last operation has
  begun a transaction, marked that operation undone, committed, and handed the reversal
  to the network layer: the persistence context is the one the commit left and the
  network context the one the distribution of the reversal left. The reversal has the
  line and column of the last operation, and its file path is the \<open>strdup\<close> of the last
  operation's. For an \<open>Insert\<close> it is a \<open>Delete\<close> with no content and length 0; for a
  \<open>Delete\<close> it is an \<open>Insert\<close> with the \<open>strdup\<close> of the deleted content and its
  length; for anything else, \<open>Replace\<close> included, it is a \<open>Replace\<close>. Where the copies
  succeed on strings without a NUL byte, file path and content are those of the last
  operation. The copies are not tested: where the copy of the file path fails, the
  reversal is distributed with file path NULL and the call still succeeds.
\<close>

theorem undo_reversal:
  assumes "heap w a = Some inst"
    and "lldb_get_last_operation P (lldb_context inst) = ((CAICR_SUCCESS, Some last_op), db1)"
    and "caicr_undo L P w (Some a) = (Returned CAICR_SUCCESS, w')"
  shows "\<exists>rev_op db2 db3 db4 net1.
           lldb_begin_transaction P db1 = (CAICR_SUCCESS, db2)
         \<and> lldb_mark_operation_undone P (operation_id last_op) db2 = (CAICR_SUCCESS, db3)
         \<and> lldb_commit_transaction P db3 = (CAICR_SUCCESS, db4)
         \<and> network_distribute_operation P rev_op (network_context inst) = (CAICR_SUCCESS, net1)
         \<and> w' = w\<lparr>heap := (heap w)(a := Some (inst\<lparr>lldb_context := db4,
                                                     network_context := net1\<rparr>)),
                   trace := trace w @ [Mtx_lock, Lldb_get_last_operation,
                     Lldb_begin_transaction, Lldb_mark_operation_undone (operation_id last_op),
                     Lldb_commit_transaction, Mtx_unlock, Network_distribute_operation rev_op,
                     Free_operation last_op]\<rparr>
         \<and> reverse_operation L inst last_op = Some rev_op
         \<and> strdup L (file_path last_op) = Some (file_path rev_op)
         \<and> strdup L (CAICRConfig.instance_id (config inst)) = Some (instance_id rev_op)
         \<and> line_number rev_op = line_number last_op
         \<and> column_number rev_op = column_number last_op
         \<and> timestamp_ns rev_op = 0
         \<and> operation_id rev_op = 0
         \<and> (type last_op = CAICR_OP_INSERT \<longrightarrow>
               type rev_op = CAICR_OP_DELETE \<and> content rev_op = None
               \<and> content_length rev_op = 0)
         \<and> (type last_op = CAICR_OP_DELETE \<longrightarrow>
               type rev_op = CAICR_OP_INSERT
               \<and> strdup L (content last_op) = Some (content rev_op)
               \<and> content_length rev_op = content_length last_op)
         \<and> (type last_op \<noteq> CAICR_OP_INSERT \<and> type last_op \<noteq> CAICR_OP_DELETE \<longrightarrow>
               type rev_op = CAICR_OP_REPLACE \<and> content rev_op = None
               \<and> content_length rev_op = 0)
         \<and> (\<forall>fp. file_path last_op = Some fp \<and> CHR 0x00 \<notin> set fp \<and> strdup_ok L fp \<longrightarrow>
               file_path rev_op = file_path last_op)
         \<and> (\<forall>ct. type last_op = CAICR_OP_DELETE \<and> content last_op = Some ct
                 \<and> CHR 0x00 \<notin> set ct \<and> strdup_ok L ct \<longrightarrow>
               content rev_op = content last_op)
         \<and> (\<forall>fp. file_path last_op = Some fp \<and> \<not> strdup_ok L (c_str fp) \<longrightarrow>
               file_path rev_op = None)"
proof -
  obtain r fr where fr: "undo_frame L P (inst, []) = (r, fr)"
    by (cases "undo_frame L P (inst, [])")
  with assms have r: "r = Returned CAICR_SUCCESS" and w': "w' = commit_frame a fr w"
    by (simp_all add: caicr_undo_def)
  from undo_frame_success [OF assms(2)] fr r
  obtain rev_op db2 db3 db4 net1 where rev: "reverse_operation L inst last_op = Some rev_op"
    and bg: "lldb_begin_transaction P db1 = (CAICR_SUCCESS, db2)"
    and mk: "lldb_mark_operation_undone P (operation_id last_op) db2 = (CAICR_SUCCESS, db3)"
    and cm: "lldb_commit_transaction P db3 = (CAICR_SUCCESS, db4)"
    and ds: "network_distribute_operation P rev_op (network_context inst) =
               (CAICR_SUCCESS, net1)"
    and frame: "fr = (inst\<lparr>lldb_context := db4, network_context := net1\<rparr>,
                 [] @ [Mtx_lock, Lldb_get_last_operation, Lldb_begin_transaction,
                   Lldb_mark_operation_undone (operation_id last_op), Lldb_commit_transaction,
                   Mtx_unlock, Network_distribute_operation rev_op, Free_operation last_op])"
    by blast
  note fields = reverse_operation_Some [OF rev]
  have world: "w' = w\<lparr>heap := (heap w)(a := Some (inst\<lparr>lldb_context := db4,
                                                     network_context := net1\<rparr>)),
                   trace := trace w @ [Mtx_lock, Lldb_get_last_operation,
                     Lldb_begin_transaction, Lldb_mark_operation_undone (operation_id last_op),
                     Lldb_commit_transaction, Mtx_unlock, Network_distribute_operation rev_op,
                     Free_operation last_op]\<rparr>"
    using w' frame by (simp add: commit_frame_def)
  have path_kept: "file_path rev_op = file_path last_op"
    if "file_path last_op = Some fp" "CHR 0x00 \<notin> set fp" "strdup_ok L fp" for fp
    using that fields(1) by (simp add: strdup_copies)
  have content_kept: "content rev_op = content last_op"
    if "type last_op = CAICR_OP_DELETE" "content last_op = Some ct"
       "CHR 0x00 \<notin> set ct" "strdup_ok L ct" for ct
    using that fields(8) by (simp add: strdup_copies)
  have path_lost: "file_path rev_op = None"
    if "file_path last_op = Some fp" "\<not> strdup_ok L (c_str fp)" for fp
    using that fields(1) by (simp add: strdup_no_memory)
  show ?thesis
    apply (rule exI [of _ rev_op])
    apply (rule exI [of _ db2])
    apply (rule exI [of _ db3])
    apply (rule exI [of _ db4])
    apply (rule exI [of _ net1])
    apply (insert bg mk cm ds world rev fields path_kept content_kept path_lost)
    apply simp
    done
qed


text \<open>
  Three logs whose single entry is an insertion, a deletion and a replacement of "hi" at
  line 1, column 1 of sample.txt: what reaches the peers is the deletion without content,
  the insertion of "hi", and a replacement without content, and the entry is marked
  undone in the log. With no memory for the copy of "sample.txt", undoing the insertion
  succeeds all the same and the peers receive a deletion whose file path is NULL.
\<close>

lemmas undo_run_defs =
  caicr_undo_def undo_frame_def frame_defs memlog_defs world_defs reverse_operation_def
  strdup_def c_str_def all_ok_def no_memory_for_def client_config_def client_operation_def

lemmas reversal_defs =
  memlog_defs world_defs reverse_operation_def strdup_def c_str_def all_ok_def
  no_memory_for_def client_config_def client_operation_def

theorem undo_reversal_witness:
  "fst (caicr_undo all_ok memlog_ports
          (one_instance (log_of [client_operation ''hi'']) peers_up None) (Some 0)) =
     Returned CAICR_SUCCESS
   \<and> network_context_of (snd (caicr_undo all_ok memlog_ports
          (one_instance (log_of [client_operation ''hi'']) peers_up None) (Some 0))) 0 =
     Some (peers_up\<lparr>broadcast :=
       [(client_operation ''hi'')
          \<lparr>type := CAICR_OP_DELETE, content := None, content_length := 0\<rparr>]\<rparr>)
   \<and> lldb_context_of (snd (caicr_undo all_ok memlog_ports
          (one_instance (log_of [client_operation ''hi'']) peers_up None) (Some 0))) 0 =
     Some ((log_of [client_operation ''hi''])
       \<lparr>committed := [((client_operation ''hi'')\<lparr>operation_id := 1\<rparr>, True)]\<rparr>)
   \<and> fst (caicr_undo all_ok memlog_ports
          (one_instance (log_of [(client_operation ''hi'')\<lparr>type := CAICR_OP_DELETE\<rparr>])
             peers_up None) (Some 0)) =
     Returned CAICR_SUCCESS
   \<and> network_context_of (snd (caicr_undo all_ok memlog_ports
          (one_instance (log_of [(client_operation ''hi'')\<lparr>type := CAICR_OP_DELETE\<rparr>])
             peers_up None) (Some 0))) 0 =
     Some (peers_up\<lparr>broadcast := [client_operation ''hi'']\<rparr>)
   \<and> fst (caicr_undo all_ok memlog_ports
          (one_instance (log_of [(client_operation ''hi'')\<lparr>type := CAICR_OP_REPLACE\<rparr>])
             peers_up None) (Some 0)) =
     Returned CAICR_SUCCESS
   \<and> network_context_of (snd (caicr_undo all_ok memlog_ports
          (one_instance (log_of [(client_operation ''hi'')\<lparr>type := CAICR_OP_REPLACE\<rparr>])
             peers_up None) (Some 0))) 0 =
     Some (peers_up\<lparr>broadcast :=
       [(client_operation ''hi'')
          \<lparr>type := CAICR_OP_REPLACE, content := None, content_length := 0\<rparr>]\<rparr>)
   \<and> fst (caicr_undo (no_memory_for ''sample.txt'') memlog_ports
          (one_instance (log_of [client_operation ''hi'']) peers_up None) (Some 0)) =
     Returned CAICR_SUCCESS
   \<and> network_context_of (snd (caicr_undo (no_memory_for ''sample.txt'') memlog_ports
          (one_instance (log_of [client_operation ''hi'']) peers_up None) (Some 0))) 0 =
     Some (peers_up\<lparr>broadcast :=
       [(client_operation ''hi'')
          \<lparr>type := CAICR_OP_DELETE, file_path := None, content := None,
           content_length := 0\<rparr>]\<rparr>)"
proof -
  have same: "(client_operation ''hi'')\<lparr>type := CAICR_OP_INSERT\<rparr> = client_operation ''hi''"
    by (simp add: client_operation_def)
  have ok: "fst (caicr_undo all_ok memlog_ports
               (one_instance (log_of [(client_operation ''hi'')\<lparr>type := t\<rparr>]) peers_up None)
               (Some 0)) = Returned CAICR_SUCCESS" for t
    by (cases t) (simp_all add: undo_run_defs)
  have no_mem: "fst (caicr_undo (no_memory_for ''sample.txt'') memlog_ports
               (one_instance (log_of [(client_operation ''hi'')\<lparr>type := CAICR_OP_INSERT\<rparr>])
                  peers_up None)
               (Some 0)) = Returned CAICR_SUCCESS"
    by (simp add: undo_run_defs)
  have h1: "heap (one_instance (log_of [(client_operation ''hi'')\<lparr>type := t\<rparr>]) peers_up None) 0
              = Some (client_instance (log_of [(client_operation ''hi'')\<lparr>type := t\<rparr>])
                        peers_up None)" for t
    by (simp add: one_instance_def)
  have h2: "lldb_get_last_operation memlog_ports
              (lldb_context (client_instance (log_of [(client_operation ''hi'')\<lparr>type := t\<rparr>])
                 peers_up None)) =
              ((CAICR_SUCCESS, Some ((client_operation ''hi'')\<lparr>type := t, operation_id := 1\<rparr>)),
               log_of [(client_operation ''hi'')\<lparr>type := t\<rparr>])" for t
    by (simp add: memlog_defs client_instance_def)
  have h3: "caicr_undo L memlog_ports
              (one_instance (log_of [(client_operation ''hi'')\<lparr>type := t\<rparr>]) peers_up None)
              (Some 0) =
            (Returned CAICR_SUCCESS,
             snd (caicr_undo L memlog_ports
               (one_instance (log_of [(client_operation ''hi'')\<lparr>type := t\<rparr>]) peers_up None)
               (Some 0)))"
    if "fst (caicr_undo L memlog_ports
               (one_instance (log_of [(client_operation ''hi'')\<lparr>type := t\<rparr>]) peers_up None)
               (Some 0)) = Returned CAICR_SUCCESS" for L t
    using that by (simp add: prod_eq_iff)
  from undo_reversal [OF h1 h2 h3 [OF ok], of CAICR_OP_INSERT]
  have a: "network_context_of (snd (caicr_undo all_ok memlog_ports
          (one_instance (log_of [(client_operation ''hi'')\<lparr>type := CAICR_OP_INSERT\<rparr>])
             peers_up None) (Some 0))) 0 =
     Some (peers_up\<lparr>broadcast :=
       [(client_operation ''hi'')
          \<lparr>type := CAICR_OP_DELETE, content := None, content_length := 0\<rparr>]\<rparr>)
    \<and> lldb_context_of (snd (caicr_undo all_ok memlog_ports
          (one_instance (log_of [(client_operation ''hi'')\<lparr>type := CAICR_OP_INSERT\<rparr>])
             peers_up None) (Some 0))) 0 =
     Some ((log_of [client_operation ''hi''])
       \<lparr>committed := [((client_operation ''hi'')\<lparr>operation_id := 1\<rparr>, True)]\<rparr>)"
    by (auto simp add: reversal_defs)
  from undo_reversal [OF h1 h2 h3 [OF ok], of CAICR_OP_DELETE]
  have b: "network_context_of (snd (caicr_undo all_ok memlog_ports
          (one_instance (log_of [(client_operation ''hi'')\<lparr>type := CAICR_OP_DELETE\<rparr>])
             peers_up None) (Some 0))) 0 =
     Some (peers_up\<lparr>broadcast := [client_operation ''hi'']\<rparr>)"
    by (auto simp add: reversal_defs)
  from undo_reversal [OF h1 h2 h3 [OF ok], of CAICR_OP_REPLACE]
  have c: "network_context_of (snd (caicr_undo all_ok memlog_ports
          (one_instance (log_of [(client_operation ''hi'')\<lparr>type := CAICR_OP_REPLACE\<rparr>])
             peers_up None) (Some 0))) 0 =
     Some (peers_up\<lparr>broadcast :=
       [(client_operation ''hi'')
          \<lparr>type := CAICR_OP_REPLACE, content := None, content_length := 0\<rparr>]\<rparr>)"
    by (auto simp add: reversal_defs)
  from undo_reversal [OF h1 h2 h3 [OF no_mem]]
  have d: "network_context_of (snd (caicr_undo (no_memory_for ''sample.txt'') memlog_ports
          (one_instance (log_of [(client_operation ''hi'')\<lparr>type := CAICR_OP_INSERT\<rparr>])
             peers_up None) (Some 0))) 0 =
     Some (peers_up\<lparr>broadcast :=
       [(client_operation ''hi'')
          \<lparr>type := CAICR_OP_DELETE, file_path := None, content := None,
           content_length := 0\<rparr>]\<rparr>)"
    by (auto simp add: reversal_defs)
  from a b c d ok [of CAICR_OP_INSERT] ok [of CAICR_OP_DELETE] ok [of CAICR_OP_REPLACE] no_mem
  show ?thesis
    by (simp only: same simp_thms)
qed

text \<open>
  \<open>strdup\<close> stops at the first NUL byte while \<open>content_length\<close> is copied whole: undoing
  the deletion of the three bytes h, NUL, i distributes an insertion of "h" with length 3.
\<close>

lemma embedded_nul_truncates_reversal:
  "network_context_of (snd (caicr_undo all_ok memlog_ports
      (one_instance
         (log_of [(client_operation ''hi'')
            \<lparr>type := CAICR_OP_DELETE, content := Some [CHR ''h'', CHR 0x00, CHR ''i''],
             content_length := 3\<rparr>])
         peers_up None) (Some 0))) 0 =
   Some (peers_up\<lparr>broadcast :=
     [(client_operation ''hi'')\<lparr>content := Some ''h'', content_length := 3\<rparr>]\<rparr>)"
  by (simp add: undo_run_defs)

section \<open>Redo\<close>

text \<open>
  Claim C6, evaluated on the code. \<open>caicr_redo\<close> returns \<open>CAICR_SUCCESS\<close> on every
  instance and leaves the world as it is: it reads no undone entry, marks nothing redone,
  opens no transaction, distributes nothing, and reports no error when there is nothing
  to redo.
\<close>

theorem redo_returns_success_unconditionally:
  "caicr_redo P w instance = (Returned CAICR_SUCCESS, w)"
  by (simp add: caicr_redo_def)

section \<open>NULL arguments\<close>

text \<open>
  Claim C9, evaluated on the code. With a NULL configuration or a NULL out-pointer
  \<open>caicr_initialize\<close> returns \<open>CAICR_ERROR_INVALID_PARAMETER\<close>; so do
  \<open>caicr_register_operation_callback\<close>, \<open>caicr_submit_operation\<close>, \<open>caicr_undo\<close>
  and \<open>caicr_shutdown\<close> with a NULL instance, and \<open>caicr_submit_operation\<close> with a
  NULL operation; \<open>caicr_free_operation\<close> of NULL does nothing. The world is unchanged
  in each case. \<open>caicr_redo\<close> with a NULL instance returns \<open>CAICR_SUCCESS\<close>.
\<close>

theorem null_arguments:
  "caicr_initialize L P w None instance_ptr = (Returned CAICR_ERROR_INVALID_PARAMETER, None, w)
   \<and> caicr_initialize L P w config_ptr None = (Returned CAICR_ERROR_INVALID_PARAMETER, None, w)
   \<and> caicr_register_operation_callback w None cb user_data =
       (Returned CAICR_ERROR_INVALID_PARAMETER, w)
   \<and> caicr_submit_operation P w None operation = (Returned CAICR_ERROR_INVALID_PARAMETER, w)
   \<and> caicr_submit_operation P w instance None = (Returned CAICR_ERROR_INVALID_PARAMETER, w)
   \<and> caicr_undo L P w None = (Returned CAICR_ERROR_INVALID_PARAMETER, w)
   \<and> caicr_shutdown w None = (Returned CAICR_ERROR_INVALID_PARAMETER, w)
   \<and> caicr_free_operation w None = w
   \<and> caicr_redo P w None = (Returned CAICR_SUCCESS, w)"
proof (intro conjI)
  show "caicr_initialize L P w None instance_ptr =
          (Returned CAICR_ERROR_INVALID_PARAMETER, None, w)"
    by (simp add: caicr_initialize_def)
  show "caicr_initialize L P w config_ptr None =
          (Returned CAICR_ERROR_INVALID_PARAMETER, None, w)"
    by (cases config_ptr) (simp_all add: caicr_initialize_def)
  show "caicr_register_operation_callback w None cb user_data =
          (Returned CAICR_ERROR_INVALID_PARAMETER, w)"
    by (simp add: caicr_register_operation_callback_def)
  show "caicr_submit_operation P w None operation =
          (Returned CAICR_ERROR_INVALID_PARAMETER, w)"
    by (simp add: caicr_submit_operation_def)
  show "caicr_submit_operation P w instance None =
          (Returned CAICR_ERROR_INVALID_PARAMETER, w)"
    by (cases "instance") (simp_all add: caicr_submit_operation_def)
  show "caicr_undo L P w None = (Returned CAICR_ERROR_INVALID_PARAMETER, w)"
    by (simp add: caicr_undo_def)
  show "caicr_shutdown w None = (Returned CAICR_ERROR_INVALID_PARAMETER, w)"
    by (simp add: caicr_shutdown_def)
  show "caicr_free_operation w None = w"
    by (simp add: caicr_free_operation_def)
  show "caicr_redo P w None = (Returned CAICR_SUCCESS, w)"
    by (simp add: caicr_redo_def)
qed

section \<open>Shutdown\<close>

text \<open>
  Claim C7, as amended. \<open>caicr_shutdown\<close> on a live instance returns
  \<open>CAICR_SUCCESS\<close> after storing false to the running flag, joining the synchronisation
  thread, shutting down the network layer and then the persistence layer once each,
  destroying the mutex and freeing the instance, in this order; while the join waits, the
  instance that the other threads see has the flag cleared. The handle is dangling
  afterwards: a second call on it reads freed memory, which is a fault and not a
  returned status (what such a call closes or frees is undefined), and the code has no
  status for "already shut down".
\<close>

theorem shutdown_once:
  assumes "heap w a = Some inst"
  shows "caicr_shutdown w (Some a) =
           (Returned CAICR_SUCCESS,
            w\<lparr>heap := (heap w)(a := None),
               trace := trace w @ [Atomic_store_is_running False, Thrd_join, Network_shutdown,
                                   Lldb_shutdown, Mtx_destroy, Free_instance a]\<rparr>)
         \<and> heap (signal_shutdown a w) a = Some (inst\<lparr>is_running := False\<rparr>)
         \<and> fst (caicr_shutdown (snd (caicr_shutdown w (Some a))) (Some a)) = Fault"
  using assms by (simp add: caicr_shutdown_def signal_shutdown_def)

text \<open>Shutting down the one instance of a world leaves an empty store.\<close>

theorem shutdown_once_witness:
  "caicr_shutdown (one_instance () () None) (Some 0) =
     (Returned CAICR_SUCCESS,
      \<lparr>heap = (\<lambda>a. None), brk = 1,
       trace = [Atomic_store_is_running False, Thrd_join, Network_shutdown, Lldb_shutdown,
                Mtx_destroy, Free_instance 0]\<rparr>)
   \<and> heap (signal_shutdown 0 (one_instance () () None)) 0 =
       Some ((client_instance () () None)\<lparr>is_running := False\<rparr>)"
proof -
  have h: "heap (one_instance () () None) 0 = Some (client_instance () () None)"
    by (simp add: one_instance_def)
  from shutdown_once [OF h] show ?thesis
    by (simp add: one_instance_def)
qed

text \<open>
  The claim as stated fails. An instance is initialised over the placeholder layers and
  shut down; the second shutdown call on the same handle does not return an error
  status: it reads the freed instance.
\<close>

theorem shutdown_twice_counterexample:
  "caicr_initialize all_ok (placeholder_ports True) no_instances (Some client_config) (Some ()) =
     (Returned CAICR_SUCCESS, Some 0,
      (one_instance () () None)
        \<lparr>trace := [Mtx_init, Lldb_initialize, Network_initialize,
                    Atomic_store_is_running True, Thrd_create]\<rparr>)
   \<and> caicr_shutdown
        ((one_instance () () None)
           \<lparr>trace := [Mtx_init, Lldb_initialize, Network_initialize,
                       Atomic_store_is_running True, Thrd_create]\<rparr>) (Some 0) =
     (Returned CAICR_SUCCESS,
      no_instances
        \<lparr>brk := 1,
         trace := [Mtx_init, Lldb_initialize, Network_initialize,
                   Atomic_store_is_running True, Thrd_create,
                   Atomic_store_is_running False, Thrd_join, Network_shutdown,
                   Lldb_shutdown, Mtx_destroy, Free_instance 0]\<rparr>)
   \<and> fst (caicr_shutdown
        (no_instances
           \<lparr>brk := 1,
            trace := [Mtx_init, Lldb_initialize, Network_initialize,
                      Atomic_store_is_running True, Thrd_create,
                      Atomic_store_is_running False, Thrd_join, Network_shutdown,
                      Lldb_shutdown, Mtx_destroy, Free_instance 0]\<rparr>)
        (Some 0)) = Fault"
  by (simp add: caicr_initialize_def caicr_shutdown_def signal_shutdown_def all_ok_def
        placeholder_ports_def strdup_def c_str_def client_config_def no_instances_def
        one_instance_def client_instance_def)

section \<open>Submit after the shutdown signal\<close>

lemma submit_frame_is_running:
  "submit_frame P operation (inst\<lparr>is_running := b\<rparr>, tr) =
     (case submit_frame P operation (inst, tr) of
        (s, (i, t)) \<Rightarrow> (s, (i\<lparr>is_running := b\<rparr>, t)))"
proof -
  let ?inst = "inst\<lparr>is_running := b\<rparr>"
  obtain s1 db1 where bg: "lldb_begin_transaction P (lldb_context inst) = (s1, db1)"
    by (cases "lldb_begin_transaction P (lldb_context inst)")
  obtain s2 db2 where st: "lldb_store_operation P operation db1 = (s2, db2)"
    by (cases "lldb_store_operation P operation db1")
  obtain s3 db3 where rb: "lldb_rollback_transaction P db2 = (s3, db3)"
    by (cases "lldb_rollback_transaction P db2")
  obtain s4 db4 where cm: "lldb_commit_transaction P db2 = (s4, db4)"
    by (cases "lldb_commit_transaction P db2")
  obtain s5 net5 where ds:
    "network_distribute_operation P operation (network_context inst) = (s5, net5)"
    by (cases "network_distribute_operation P operation (network_context inst)")
  have bg': "lldb_begin_transaction P (lldb_context ?inst) = (s1, db1)"
    using bg by simp
  have ds': "network_distribute_operation P operation (network_context ?inst) = (s5, net5)"
    using ds by simp
  consider (failed_begin) "s1 \<noteq> CAICR_SUCCESS"
    | (failed_store) "s1 = CAICR_SUCCESS" "s2 \<noteq> CAICR_SUCCESS"
    | (failed_commit) "s1 = CAICR_SUCCESS" "s2 = CAICR_SUCCESS" "s4 \<noteq> CAICR_SUCCESS"
    | (committed) "s1 = CAICR_SUCCESS" "s2 = CAICR_SUCCESS" "s4 = CAICR_SUCCESS"
    by blast
  then show ?thesis
  proof cases
    case failed_begin
    then show ?thesis
      by (simp add: submit_frame_begin_fails [OF bg] submit_frame_begin_fails [OF bg'])
  next
    case failed_store
    with bg bg' st rb show ?thesis
      by (simp add: submit_frame_store_fails [of P inst db1 operation s2 db2 s3 db3]
            submit_frame_store_fails [of P ?inst db1 operation s2 db2 s3 db3])
  next
    case failed_commit
    with bg bg' st cm show ?thesis
      by (simp add: submit_frame_commit_fails [of P inst db1 operation db2 s4 db4]
            submit_frame_commit_fails [of P ?inst db1 operation db2 s4 db4])
  next
    case committed
    with bg bg' st cm ds ds' show ?thesis
      by (simp add: submit_frame_committed [of P inst db1 operation db2 db4 s5 net5]
            submit_frame_committed [of P ?inst db1 operation db2 db4 s5 net5])
  qed
qed

text \<open>
  Claim C8, as amended. \<open>caicr_submit_operation\<close> does not read the running flag: on
  an instance that is still allocated, a submit after the shutdown signal returns the
  same status, makes the same calls and leaves the same persistence and network contexts
  as the same submit before the signal.
\<close>

theorem submit_after_shutdown_signal:
  assumes "heap w a = Some inst"
  shows "fst (caicr_submit_operation P (signal_shutdown a w) (Some a) operation) =
           fst (caicr_submit_operation P w (Some a) operation)
       \<and> trace (snd (caicr_submit_operation P (signal_shutdown a w) (Some a) operation)) =
           trace (snd (caicr_submit_operation P w (Some a) operation))
       \<and> lldb_context_of (snd (caicr_submit_operation P (signal_shutdown a w) (Some a) operation)) a =
           lldb_context_of (snd (caicr_submit_operation P w (Some a) operation)) a
       \<and> network_context_of (snd (caicr_submit_operation P (signal_shutdown a w) (Some a) operation)) a =
           network_context_of (snd (caicr_submit_operation P w (Some a) operation)) a"
proof (cases operation)
  case None
  with assms show ?thesis
    by (simp add: caicr_submit_operation_def signal_shutdown_def lldb_context_of_def
          network_context_of_def)
next
  case (Some op)
  obtain s i t where fr: "submit_frame P op (inst, []) = (s, (i, t))"
    by (cases "submit_frame P op (inst, [])") auto
  with assms Some show ?thesis
    by (simp add: caicr_submit_operation_def signal_shutdown_def lldb_context_of_def
          network_context_of_def submit_frame_is_running commit_frame_def)
qed

text \<open>
  The claim as stated fails: with the running flag cleared, a new submit is accepted. Over
  the placeholder layers it begins, stores, commits and distributes as usual and returns
  \<open>CAICR_SUCCESS\<close>; on the transactional log its operation is appended.
\<close>

theorem submit_after_shutdown_signal_counterexample:
  "signal_shutdown 0 (one_instance () () None) =
     \<lparr>heap = (\<lambda>a. None)(0 := Some ((client_instance () () None)\<lparr>is_running := False\<rparr>)),
      brk = 1, trace = []\<rparr>
   \<and> caicr_submit_operation (placeholder_ports True)
        (signal_shutdown 0 (one_instance () () None)) (Some 0)
        (Some (client_operation ''hi'')) =
     (Returned CAICR_SUCCESS,
      (signal_shutdown 0 (one_instance () () None))
        \<lparr>trace := [Mtx_lock, Lldb_begin_transaction,
                    Lldb_store_operation (client_operation ''hi''),
                    Lldb_commit_transaction, Mtx_unlock,
                    Network_distribute_operation (client_operation ''hi'')]\<rparr>)
   \<and> map_option is_running
     (heap (signal_shutdown 0 (one_instance (empty_log []) peers_up None)) 0) = Some False
   \<and> fst (caicr_submit_operation memlog_ports
            (signal_shutdown 0 (one_instance (empty_log []) peers_up None)) (Some 0)
            (Some (client_operation ''hi''))) = Returned CAICR_SUCCESS
   \<and> lldb_context_of (snd (caicr_submit_operation memlog_ports
            (signal_shutdown 0 (one_instance (empty_log []) peers_up None)) (Some 0)
            (Some (client_operation ''hi'')))) 0 = Some (log_of [client_operation ''hi''])"
  by (simp add: caicr_submit_operation_def submit_frame_def frame_defs memlog_defs world_defs
        signal_shutdown_def placeholder_ports_def)

theorem submit_after_shutdown_signal_witness:
  "fst (caicr_submit_operation memlog_ports
          (signal_shutdown 0 (one_instance (empty_log []) peers_up None)) (Some 0)
          (Some (client_operation ''hi''))) =
     fst (caicr_submit_operation memlog_ports
          (one_instance (empty_log []) peers_up None) (Some 0)
          (Some (client_operation ''hi'')))
   \<and> lldb_context_of (snd (caicr_submit_operation memlog_ports
          (signal_shutdown 0 (one_instance (empty_log []) peers_up None)) (Some 0)
          (Some (client_operation ''hi'')))) 0 =
     lldb_context_of (snd (caicr_submit_operation memlog_ports
          (one_instance (empty_log []) peers_up None) (Some 0)
          (Some (client_operation ''hi'')))) 0"
proof -
  have h: "heap (one_instance (empty_log []) peers_up None) 0 =
             Some (client_instance (empty_log []) peers_up None)"
    by (simp add: one_instance_def)
  from submit_after_shutdown_signal [OF h, of memlog_ports "Some (client_operation ''hi'')"]
  show ?thesis
    by simp
qed

section \<open>The synchronisation loop\<close>

lemma store_operations_frame:
  "store_operations P batch fr =
     ((fst fr)\<lparr>lldb_context :=
         foldl (\<lambda>db operation. snd (lldb_store_operation P operation db))
           (lldb_context (fst fr)) batch\<rparr>,
      snd fr @ map Lldb_store_operation batch)"
proof (induction batch arbitrary: fr)
  case Nil
  show ?case by simp
next
  case (Cons current rest)
  show ?case
    by (simp add: Cons.IH lldb_call_def split: prod.splits)
qed

text \<open>
  A pass through the body leaves the running flag as it is, so the loop run on its own
  returns at once when the flag is cleared and does not return while it is set: it is
  \<open>caicr_shutdown\<close>, from another thread, that ends it.
\<close>

lemma sync_iteration_is_running:
  "is_running (fst (sync_iteration P fr)) = is_running (fst fr)"
  by (auto simp add: sync_iteration_def frame_defs store_operations_frame Let_def
        split: prod.splits option.splits)

lemma caicr_sync_thread_func_stopped:
  "\<not> is_running (fst fr) \<Longrightarrow> caicr_sync_thread_func P n fr = Some (0, fr)"
  by (cases n) simp_all

lemma caicr_sync_thread_func_running:
  "is_running (fst fr) \<Longrightarrow> caicr_sync_thread_func P n fr = None"
proof (induction n arbitrary: fr)
  case 0
  then show ?case by simp
next
  case (Suc n)
  then show ?case by (simp add: sync_iteration_is_running)
qed

text \<open>
  Claim C10. In one pass of the synchronisation loop, with no callback registered (or a
  failed or empty drain) the persistence context is untouched and no store call is made,
  whatever was drained; with a callback registered and a non-empty batch drained
  successfully, the callback is invoked once on the whole batch, and only then, under the
  lock, every entry of the batch is stored in order.
\<close>

theorem sync_iteration_stores_after_callback:
  assumes "network_sync_state P (network_context inst) = (s0, net1)"
    and "network_get_pending_operations P net1 = ((s1, batch), net2)"
    and "network_free_operations P batch net2 = (s3, net3)"
  shows "(callback inst = None \<or> s1 \<noteq> CAICR_SUCCESS \<or> batch = [] \<longrightarrow>
            sync_iteration P (inst, tr) =
              (inst\<lparr>network_context := net2\<rparr>,
               tr @ [Network_sync_state, Network_get_pending_operations, Thrd_sleep]))
       \<and> (\<forall>cb. callback inst = Some cb \<and> s1 = CAICR_SUCCESS \<and> batch \<noteq> [] \<longrightarrow>
            sync_iteration P (inst, tr) =
              (inst\<lparr>network_context := net3,
                    lldb_context :=
                      foldl (\<lambda>db operation. snd (lldb_store_operation P operation db))
                        (lldb_context inst) batch\<rparr>,
               tr @ [Network_sync_state, Network_get_pending_operations,
                     Callback cb batch (callback_user_data inst), Mtx_lock]
                  @ map Lldb_store_operation batch
                  @ [Mtx_unlock, Network_free_operations batch, Thrd_sleep]))"
  using assms
  by (auto simp add: sync_iteration_def frame_defs store_operations_frame split: option.splits)


text \<open>
  Two operations have arrived from the peers. Without a callback the pass makes no store
  call and leaves the log as it is; with the callback at address 7 it calls the callback
  on both and then stores both.
\<close>

theorem sync_iteration_stores_after_callback_witness:
  "sync_iteration memlog_ports
     (client_instance (empty_log [])
        (peers_up\<lparr>arrived := [client_operation ''a'', client_operation ''b'']\<rparr>) None, []) =
     (client_instance (empty_log []) peers_up None,
      [Network_sync_state, Network_get_pending_operations, Thrd_sleep])
   \<and> snd (sync_iteration memlog_ports
     (client_instance (empty_log [])
        (peers_up\<lparr>arrived := [client_operation ''a'', client_operation ''b'']\<rparr>) (Some 7), [])) =
      [Network_sync_state, Network_get_pending_operations,
       Callback 7 [client_operation ''a'', client_operation ''b''] None, Mtx_lock,
       Lldb_store_operation (client_operation ''a''),
       Lldb_store_operation (client_operation ''b''),
       Mtx_unlock,
       Network_free_operations [client_operation ''a'', client_operation ''b''], Thrd_sleep]"
proof -
  let ?batch = "[client_operation ''a'', client_operation ''b'']"
  let ?net = "peers_up\<lparr>arrived := ?batch\<rparr>"
  have h1: "network_sync_state memlog_ports
              (network_context (client_instance (empty_log []) ?net cb)) = (CAICR_SUCCESS, ?net)"
    for cb
    by (simp add: memlog_defs client_instance_def)
  have h2: "network_get_pending_operations memlog_ports ?net =
              ((CAICR_SUCCESS, ?batch), peers_up)"
    by (simp add: memlog_defs)
  have h3: "network_free_operations memlog_ports ?batch peers_up = (CAICR_SUCCESS, peers_up)"
    by (simp add: memlog_defs)
  from sync_iteration_stores_after_callback [OF h1 h2 h3, of None "[]"]
  have a: "sync_iteration memlog_ports (client_instance (empty_log []) ?net None, []) =
     (client_instance (empty_log []) peers_up None,
      [Network_sync_state, Network_get_pending_operations, Thrd_sleep])"
    by (simp add: client_instance_def)
  from sync_iteration_stores_after_callback [OF h1 h2 h3, of "Some 7" "[]"]
  have b: "snd (sync_iteration memlog_ports (client_instance (empty_log []) ?net (Some 7), [])) =
      [Network_sync_state, Network_get_pending_operations,
       Callback 7 ?batch None, Mtx_lock,
       Lldb_store_operation (client_operation ''a''),
       Lldb_store_operation (client_operation ''b''),
       Mtx_unlock, Network_free_operations ?batch, Thrd_sleep]"
    by (simp add: client_instance_def)
  from a b show ?thesis
    by (intro conjI)
qed

text \<open>
  The same at the level of worlds: a step of the synchronisation thread of a running
  instance without a callback makes no store call and leaves the persistence context as
  it is, and once the running flag is cleared a step does nothing at all.
\<close>

lemma sync_thread_step_without_callback:
  assumes "heap w a = Some inst" and "is_running inst" and "callback inst = None"
  shows "lldb_context_of (sync_thread_step P a w) a = Some (lldb_context inst)"
    and "stored (trace (sync_thread_step P a w)) = stored (trace w)"
  using assms
  by (auto simp add: sync_thread_step_def sync_iteration_def frame_defs lldb_context_of_def
        stored_append split: prod.splits)

lemma sync_thread_step_stopped:
  assumes "heap w a = Some inst" and "\<not> is_running inst"
  shows "sync_thread_step P a w = w"
  using assms by (simp add: sync_thread_step_def)

end
